theory Spec2Isabelle
  imports Main "HOL-Library.Word" "HOL-Library.Signed_Division"
begin

unbundle bit_operations_syntax

section \<open>Data model\<close>

text \<open>
  The simulator keeps an ext2-style file system in one host file.  The inode layer
  (\<^verbatim>\<open>src/inode.c\<close>) and the command layer (\<^verbatim>\<open>src/commands.c\<close>) are embedded
  function by function.  The block device, the bitmap allocators and the inode table
  (\<^verbatim>\<open>disk.c\<close>), the user registry (\<^verbatim>\<open>user.c\<close>), the directory layer
  (\<^verbatim>\<open>directory.c\<close>) and the headers are not in \<^verbatim>\<open>src/\<close>: the block device, the
  allocators, the inode table and the session are modelled from the specification; the
  directory layer and the header constants whose values the specification does not give
  are parameters of the commands.
\<close>

type_synonym u8 = "8 word"
type_synonym u16 = "16 word"
type_synonym u32 = "32 word"

text \<open>Modelled from the spec: block size B = 1024 bytes (the header is not in src/).\<close>

definition BLOCK_SIZE :: nat where
  "BLOCK_SIZE = 1024"

text \<open>Modelled from the spec: the reference build has 1024 blocks.\<close>

definition MAX_BLOCKS :: nat where
  "MAX_BLOCKS = 1024"

text \<open>Modelled from the spec: the reference build has 128 inodes.\<close>

definition MAX_INODES :: nat where
  "MAX_INODES = 128"

text \<open>Modelled from the spec: an inode record is 128 bytes.\<close>

definition INODE_SIZE :: nat where
  "INODE_SIZE = 128"

text \<open>
  Modelled from the spec: block 0 is the superblock, block 1 the block bitmap, block 2
  the inode bitmap, the inode table follows from block 3, and the remainder are data
  blocks.
\<close>

definition FIRST_DATA_BLOCK :: nat where
  "FIRST_DATA_BLOCK = 3 + (MAX_INODES * INODE_SIZE + BLOCK_SIZE - 1) div BLOCK_SIZE"

text \<open>Modelled from the spec: the first non-reserved inode is 11.\<close>

definition FIRST_INO :: nat where
  "FIRST_INO = 11"

text \<open>
  Modelled from the spec: the inode record (\<^verbatim>\<open>ext2_inode_t\<close>).  The fifteen block
  pointers \<^verbatim>\<open>i_block[0..14]\<close> are a function of the index; the code only ever indexes
  it below 15.
\<close>

record ext2_inode =
  i_mode :: u16
  i_uid :: u16
  i_gid :: u16
  i_size :: u32
  i_atime :: u32
  i_ctime :: u32
  i_mtime :: u32
  i_dtime :: u32
  i_links_count :: u16
  i_blocks :: u32
  i_flags :: u32
  i_block :: "nat \<Rightarrow> u32"

text \<open>The result of \<^verbatim>\<open>memset(&inode, 0, sizeof(ext2_inode_t))\<close>.\<close>

definition zero_inode :: ext2_inode where
  "zero_inode = \<lparr> i_mode = 0, i_uid = 0, i_gid = 0, i_size = 0, i_atime = 0, i_ctime = 0,
     i_mtime = 0, i_dtime = 0, i_links_count = 0, i_blocks = 0, i_flags = 0,
     i_block = (\<lambda>_. 0) \<rparr>"

text \<open>
  Modelled from the spec: the superblock (\<^verbatim>\<open>ext2_superblock_t\<close>), with the fields that
  \<^verbatim>\<open>cmd_format\<close> assigns; every other byte of the structure stays zero.
\<close>

record ext2_superblock =
  s_inodes_count :: u32
  s_blocks_count :: u32
  s_r_blocks_count :: u32
  s_free_blocks_count :: u32
  s_free_inodes_count :: u32
  s_first_data_block :: u32
  s_log_block_size :: u32
  s_log_frag_size :: u32
  s_blocks_per_group :: u32
  s_frags_per_group :: u32
  s_inodes_per_group :: u32
  s_mtime :: u32
  s_wtime :: u32
  s_mnt_count :: u16
  s_max_mnt_count :: u16
  s_magic :: u16
  s_state :: u16
  s_errors :: u16
  s_minor_rev_level :: u16
  s_lastcheck :: u32
  s_checkinterval :: u32
  s_creator_os :: u32
  s_rev_level :: u32
  s_def_resuid :: u16
  s_def_resgid :: u16
  s_first_ino :: u32
  s_inode_size :: u16
  s_block_group_nr :: u16
  s_feature_compat :: u32
  s_feature_incompat :: u32
  s_feature_ro_compat :: u32

definition zero_superblock :: ext2_superblock where
  "zero_superblock = \<lparr> s_inodes_count = 0, s_blocks_count = 0, s_r_blocks_count = 0,
     s_free_blocks_count = 0, s_free_inodes_count = 0, s_first_data_block = 0,
     s_log_block_size = 0, s_log_frag_size = 0, s_blocks_per_group = 0,
     s_frags_per_group = 0, s_inodes_per_group = 0, s_mtime = 0, s_wtime = 0,
     s_mnt_count = 0, s_max_mnt_count = 0, s_magic = 0, s_state = 0, s_errors = 0,
     s_minor_rev_level = 0, s_lastcheck = 0, s_checkinterval = 0, s_creator_os = 0,
     s_rev_level = 0, s_def_resuid = 0, s_def_resgid = 0, s_first_ino = 0,
     s_inode_size = 0, s_block_group_nr = 0, s_feature_compat = 0,
     s_feature_incompat = 0, s_feature_ro_compat = 0 \<rparr>"

text \<open>
  Modelled from the spec: the disk image (the layout of section 3).  The metadata blocks
  are kept decoded: the superblock of block 0, the two bitmaps of blocks 1 and 2 (bit \<open>n\<close>
  of the block bitmap is block \<open>n\<close>, bit \<open>i\<close> of the inode bitmap is inode \<open>i + 1\<close>), and
  the inode table by inode number.  \<open>d_blocks\<close> holds the bytes of the blocks that
  \<^verbatim>\<open>read_block\<close> and \<^verbatim>\<open>write_block\<close> transfer, a block being a function from the byte
  offset (below 1024) to the byte.  A zero-filled block decodes to clear bitmap bits and
  to zero inode records.  The model is exact for images whose block pointers address
  data blocks: a transfer of a block number below \<open>FIRST_DATA_BLOCK\<close> would alias the
  decoded metadata, which the model keeps apart from \<open>d_blocks\<close>.
\<close>

type_synonym block = "nat \<Rightarrow> u8"

record disk =
  d_superblock :: ext2_superblock
  d_block_bitmap :: "nat \<Rightarrow> bool"
  d_inode_bitmap :: "nat \<Rightarrow> bool"
  d_inodes :: "nat \<Rightarrow> ext2_inode"
  d_blocks :: "nat \<Rightarrow> block"

definition zero_block :: block where
  "zero_block = (\<lambda>_. 0)"

text \<open>The image after \<^verbatim>\<open>MAX_BLOCKS\<close> zero blocks have been written to it.\<close>

definition zero_disk :: disk where
  "zero_disk = \<lparr> d_superblock = zero_superblock, d_block_bitmap = (\<lambda>_. False),
     d_inode_bitmap = (\<lambda>_. False), d_inodes = (\<lambda>_. zero_inode),
     d_blocks = (\<lambda>_. zero_block) \<rparr>"

text \<open>One slot of \<^verbatim>\<open>fs.open_files\<close> (\<^verbatim>\<open>open_file_t\<close>).\<close>

record open_file =
  of_fd :: int
  of_inode_no :: u32
  of_flags :: int
  of_offset :: nat
  of_is_open :: bool

text \<open>
  The state of the process and of its host: the host's files (\<open>files\<close>, by path) and
  whether a path can be opened for writing, the image handle of the block device
  (\<open>disk_fp\<close>: the path of the open image, or none), the global \<^verbatim>\<open>fs\<close> (superblock
  mirror, open-file table, \<^verbatim>\<open>next_fd\<close>), the session of the user registry, and the
  host clock: \<open>clock s k\<close> is what the \<open>k\<close>-th call of \<^verbatim>\<open>time(NULL)\<close> returns, \<open>ticks\<close>
  counts the calls made so far.
\<close>

record fs_state =
  files :: "string \<Rightarrow> disk option"
  host_writable :: "string \<Rightarrow> bool"
  disk_fp :: "string option"
  superblock :: ext2_superblock
  open_files :: "open_file list"
  next_fd :: int
  logged_in :: bool
  cur_uid :: u16
  cur_gid :: u16
  clock :: "nat \<Rightarrow> u32"
  ticks :: nat

text \<open>The error messages of the command layer, one constructor per message.\<close>

datatype error =
    NotLoggedIn
  | InvalidPath
  | ParentMissing
  | ParentNotDirectory
  | PermissionDenied
  | CreateFailed
  | AddEntryFailed
  | FileNotFound
  | IsDirectory
  | RemoveEntryFailed
  | DeleteFailed
  | NotRegularFile
  | TooManyOpenFiles
  | BadDescriptor
  | NotOpenForReading
  | NotOpenForWriting
  | CannotCreateImage
  | CannotWriteSuperblock
  | MountFailed
  | SuperblockUnreadable
  | BadMagic
  | ChangeFailed

text \<open>Every failing command returns -1 after printing its message.\<close>

definition ret :: "error + int \<Rightarrow> int" where
  "ret r = (case r of Inl _ \<Rightarrow> - 1 | Inr v \<Rightarrow> v)"

section \<open>Host clock, user session\<close>

text \<open>\<^verbatim>\<open>time(NULL)\<close>: the next reading of the host clock.\<close>

definition time_now :: "fs_state \<Rightarrow> u32 \<times> fs_state" where
  "time_now s = (clock s (ticks s), s\<lparr>ticks := Suc (ticks s)\<rparr>)"

text \<open>
  Modelled from the spec: \<^verbatim>\<open>is_logged_in()\<close> of the user registry (\<^verbatim>\<open>user.c\<close> is not in
  \<^verbatim>\<open>src/\<close>); the session is \<^verbatim>\<open>fs.current_user\<close> or "logged out".
\<close>

definition is_logged_in :: "fs_state \<Rightarrow> bool" where
  "is_logged_in s = logged_in s"

text \<open>Modelled from the spec: \<^verbatim>\<open>get_current_uid()\<close>, the uid of \<^verbatim>\<open>fs.current_user\<close>.\<close>

definition get_current_uid :: "fs_state \<Rightarrow> u16" where
  "get_current_uid s = cur_uid s"

text \<open>Modelled from the spec: \<^verbatim>\<open>get_current_gid()\<close>, the gid of \<^verbatim>\<open>fs.current_user\<close>.\<close>

definition get_current_gid :: "fs_state \<Rightarrow> u16" where
  "get_current_gid s = cur_gid s"

section \<open>Block device, allocators and inode table\<close>

text \<open>
  Modelled from the spec: the block device owns the image handle from mount to unmount.
  \<open>get_disk\<close> is the image behind the handle (none when nothing is mounted), \<open>put_disk\<close>
  stores an image through it.
\<close>

definition get_disk :: "fs_state \<Rightarrow> disk option" where
  "get_disk s = (case disk_fp s of None \<Rightarrow> None | Some p \<Rightarrow> files s p)"

definition put_disk :: "disk \<Rightarrow> fs_state \<Rightarrow> fs_state" where
  "put_disk d s = (case disk_fp s of None \<Rightarrow> s | Some p \<Rightarrow> s\<lparr>files := (files s)(p := Some d)\<rparr>)"

text \<open>
  Modelled from the spec: \<^verbatim>\<open>read_block(n, buf)\<close> transfers block \<open>n\<close> of the mounted
  image; it fails when no image is mounted or \<open>n\<close> is not below \<^verbatim>\<open>MAX_BLOCKS\<close>.
\<close>

definition read_block :: "u32 \<Rightarrow> fs_state \<Rightarrow> block option" where
  "read_block n s =
     (case get_disk s of
        None \<Rightarrow> None
      | Some d \<Rightarrow> if unat n < MAX_BLOCKS then Some (d_blocks d (unat n)) else None)"

text \<open>Modelled from the spec: \<^verbatim>\<open>write_block(n, buf)\<close>, 0 on success and -1 on failure.\<close>

definition write_block :: "u32 \<Rightarrow> block \<Rightarrow> fs_state \<Rightarrow> int \<times> fs_state" where
  "write_block n b s =
     (case get_disk s of
        None \<Rightarrow> (- 1, s)
      | Some d \<Rightarrow>
          if unat n < MAX_BLOCKS
          then (0, put_disk (d\<lparr>d_blocks := (d_blocks d)(unat n := b)\<rparr>) s)
          else (- 1, s))"

text \<open>
  Modelled from the spec: \<^verbatim>\<open>read_inode(n, out)\<close> copies record \<open>n\<close> of the inode table;
  it fails for \<open>n = 0\<close>, for \<open>n\<close> above \<^verbatim>\<open>MAX_INODES\<close> and when no image is mounted.
\<close>

definition read_inode :: "u32 \<Rightarrow> fs_state \<Rightarrow> ext2_inode option" where
  "read_inode n s =
     (case get_disk s of
        None \<Rightarrow> None
      | Some d \<Rightarrow> if n = 0 \<or> MAX_INODES < unat n then None else Some (d_inodes d (unat n)))"

text \<open>Modelled from the spec: \<^verbatim>\<open>write_inode(n, in)\<close>, 0 on success and -1 on failure.\<close>

definition write_inode :: "u32 \<Rightarrow> ext2_inode \<Rightarrow> fs_state \<Rightarrow> int \<times> fs_state" where
  "write_inode n inode s =
     (case get_disk s of
        None \<Rightarrow> (- 1, s)
      | Some d \<Rightarrow>
          if n = 0 \<or> MAX_INODES < unat n then (- 1, s)
          else (0, put_disk (d\<lparr>d_inodes := (d_inodes d)(unat n := inode)\<rparr>) s))"

text \<open>
  Modelled from the spec: allocation takes the lowest free index; \<open>first_clear\<close> is the
  lowest clear bit of a bitmap with index in \<open>[lo, hi)\<close>.
\<close>

definition first_clear :: "(nat \<Rightarrow> bool) \<Rightarrow> nat \<Rightarrow> nat \<Rightarrow> nat option" where
  "first_clear bm lo hi = List.find (\<lambda>i. \<not> bm i) [lo..<hi]"

text \<open>
  Modelled from the spec: \<^verbatim>\<open>allocate_block()\<close> scans the block bitmap from the first
  data block's bit upward, returns the lowest clear bit's index, sets it, decrements
  \<^verbatim>\<open>s_free_blocks_count\<close>, writes bitmap and superblock and zero-fills the new block; it
  returns 0 if none is free.
\<close>

definition allocate_block :: "fs_state \<Rightarrow> u32 \<times> fs_state" where
  "allocate_block s =
     (case get_disk s of
        None \<Rightarrow> (0, s)
      | Some d \<Rightarrow>
          (case first_clear (d_block_bitmap d) FIRST_DATA_BLOCK MAX_BLOCKS of
             None \<Rightarrow> (0, s)
           | Some n \<Rightarrow>
               let sb = (superblock s)\<lparr>s_free_blocks_count := s_free_blocks_count (superblock s) - 1\<rparr>;
                   d' = d\<lparr>d_block_bitmap := (d_block_bitmap d)(n := True),
                          d_superblock := sb,
                          d_blocks := (d_blocks d)(n := zero_block)\<rparr>
               in (of_nat n, put_disk d' (s\<lparr>superblock := sb\<rparr>))))"

text \<open>
  Modelled from the spec: \<^verbatim>\<open>free_block(n)\<close> clears bit \<open>n\<close>, increments
  \<^verbatim>\<open>s_free_blocks_count\<close> and writes bitmap and superblock; clearing a bit that is
  already clear (and a block number that is out of range) changes nothing.
\<close>

definition free_block :: "u32 \<Rightarrow> fs_state \<Rightarrow> fs_state" where
  "free_block n s =
     (case get_disk s of
        None \<Rightarrow> s
      | Some d \<Rightarrow>
          if unat n < MAX_BLOCKS \<and> d_block_bitmap d (unat n)
          then let sb = (superblock s)\<lparr>s_free_blocks_count := s_free_blocks_count (superblock s) + 1\<rparr>;
                   d' = d\<lparr>d_block_bitmap := (d_block_bitmap d)(unat n := False),
                          d_superblock := sb\<rparr>
               in put_disk d' (s\<lparr>superblock := sb\<rparr>)
          else s)"

text \<open>
  Modelled from the spec: \<^verbatim>\<open>allocate_inode()\<close> is the analogue over the inode bitmap:
  it returns the inode number of the lowest clear bit (bit \<open>i\<close> is inode \<open>i + 1\<close>) from the
  first non-reserved inode upward, and 0 if none is free.
\<close>

definition allocate_inode :: "fs_state \<Rightarrow> u32 \<times> fs_state" where
  "allocate_inode s =
     (case get_disk s of
        None \<Rightarrow> (0, s)
      | Some d \<Rightarrow>
          (case first_clear (d_inode_bitmap d) (FIRST_INO - 1) MAX_INODES of
             None \<Rightarrow> (0, s)
           | Some i \<Rightarrow>
               let sb = (superblock s)\<lparr>s_free_inodes_count := s_free_inodes_count (superblock s) - 1\<rparr>;
                   d' = d\<lparr>d_inode_bitmap := (d_inode_bitmap d)(i := True), d_superblock := sb\<rparr>
               in (of_nat (i + 1), put_disk d' (s\<lparr>superblock := sb\<rparr>))))"

text \<open>Modelled from the spec: \<^verbatim>\<open>free_inode(n)\<close> clears bit \<open>n - 1\<close> of the inode bitmap.\<close>

definition free_inode :: "u32 \<Rightarrow> fs_state \<Rightarrow> fs_state" where
  "free_inode n s =
     (case get_disk s of
        None \<Rightarrow> s
      | Some d \<Rightarrow>
          if n \<noteq> 0 \<and> unat n \<le> MAX_INODES \<and> d_inode_bitmap d (unat n - 1)
          then let sb = (superblock s)\<lparr>s_free_inodes_count := s_free_inodes_count (superblock s) + 1\<rparr>;
                   d' = d\<lparr>d_inode_bitmap := (d_inode_bitmap d)(unat n - 1 := False),
                          d_superblock := sb\<rparr>
               in put_disk d' (s\<lparr>superblock := sb\<rparr>)
          else s)"

section \<open>Inode layer (src/inode.c)\<close>

text \<open>
  An indirect block is read as \<^verbatim>\<open>uint32_t indirect_blocks[BLOCK_SIZE / 4]\<close>: entry \<open>i\<close>
  is the little-endian word of the bytes \<open>4 * i\<close> to \<open>4 * i + 3\<close>.
\<close>

definition get_u32 :: "block \<Rightarrow> nat \<Rightarrow> u32" where
  "get_u32 b i = word_rcat [b (4 * i + 3), b (4 * i + 2), b (4 * i + 1), b (4 * i)]"

definition set_u32 :: "block \<Rightarrow> nat \<Rightarrow> u32 \<Rightarrow> block" where
  "set_u32 b i v = b(4 * i := ucast v, 4 * i + 1 := ucast (drop_bit 8 v),
     4 * i + 2 := ucast (drop_bit 16 v), 4 * i + 3 := ucast (drop_bit 24 v))"

text \<open>\<^verbatim>\<open>create_inode\<close>: the value returned is the inode number converted to \<^verbatim>\<open>int\<close>.\<close>

definition create_inode :: "u16 \<Rightarrow> u16 \<Rightarrow> u16 \<Rightarrow> fs_state \<Rightarrow> int \<times> fs_state" where
  "create_inode mode uid gid s =
     (case allocate_inode s of
        (inode_no, s1) \<Rightarrow>
          if inode_no = 0 then (- 1, s1)
          else
            (case time_now s1 of
               (t_a, s2) \<Rightarrow>
                 (case time_now s2 of
                    (t_c, s3) \<Rightarrow>
                      (case time_now s3 of
                         (t_m, s4) \<Rightarrow>
                           let inode = zero_inode\<lparr>i_mode := mode, i_uid := uid, i_gid := gid,
                                 i_size := 0, i_links_count := 1, i_blocks := 0,
                                 i_atime := t_a, i_ctime := t_c, i_mtime := t_m,
                                 i_block := fold (\<lambda>i b. b(i := 0)) [0..<15] (i_block zero_inode)\<rparr>
                           in (case write_inode inode_no inode s4 of
                                 (r, s5) \<Rightarrow>
                                   if r \<noteq> 0 then (- 1, free_inode inode_no s5)
                                   else (sint inode_no, s5))))))"

text \<open>The loops of \<^verbatim>\<open>delete_inode\<close> free every non-zero block number of an array.\<close>

definition free_blocks :: "u32 list \<Rightarrow> fs_state \<Rightarrow> fs_state" where
  "free_blocks bs s = fold (\<lambda>b t. if b \<noteq> 0 then free_block b t else t) bs s"

definition delete_inode :: "u32 \<Rightarrow> fs_state \<Rightarrow> int \<times> fs_state" where
  "delete_inode inode_no s =
     (case read_inode inode_no s of
        None \<Rightarrow> (- 1, s)
      | Some inode \<Rightarrow>
          let s1 = free_blocks (map (i_block inode) [0..<12]) s;
              s2 = (if i_block inode 12 \<noteq> 0
                    then free_block (i_block inode 12)
                           (case read_block (i_block inode 12) s1 of
                              Some indirect_blocks \<Rightarrow>
                                free_blocks (map (get_u32 indirect_blocks) [0..<BLOCK_SIZE div 4]) s1
                            | None \<Rightarrow> s1)
                    else s1);
              s3 = snd (write_inode inode_no zero_inode s2)
          in (0, free_inode inode_no s3))"

text \<open>\<^verbatim>\<open>get_inode_block\<close>: \<open>None\<close> is the return value -1, \<open>Some b\<close> is 0 with \<^verbatim>\<open>*block_no = b\<close>.\<close>

definition get_inode_block :: "u32 \<Rightarrow> u32 \<Rightarrow> fs_state \<Rightarrow> u32 option" where
  "get_inode_block inode_no block_index s =
     (case read_inode inode_no s of
        None \<Rightarrow> None
      | Some inode \<Rightarrow>
          if unat block_index < 12 then Some (i_block inode (unat block_index))
          else if unat block_index < 12 + BLOCK_SIZE div 4 then
            (if i_block inode 12 = 0 then Some 0
             else (case read_block (i_block inode 12) s of
                     None \<Rightarrow> None
                   | Some indirect_blocks \<Rightarrow> Some (get_u32 indirect_blocks (unat block_index - 12))))
          else None)"

text \<open>
  The indirect branch of \<^verbatim>\<open>set_inode_block\<close> once \<^verbatim>\<open>inode.i_block[12]\<close> is non-zero: a
  failed read of the indirect block gives a zeroed array, the result of the write of the
  indirect block is ignored, and the inode is written back.
\<close>

definition set_indirect_entry :: "u32 \<Rightarrow> ext2_inode \<Rightarrow> u32 \<Rightarrow> u32 \<Rightarrow> fs_state \<Rightarrow> int \<times> fs_state" where
  "set_indirect_entry inode_no inode block_index block_no s =
     (let indirect_blocks = (case read_block (i_block inode 12) s of
                               Some b \<Rightarrow> b
                             | None \<Rightarrow> zero_block);
          s1 = snd (write_block (i_block inode 12)
                      (set_u32 indirect_blocks (unat block_index - 12) block_no) s)
      in write_inode inode_no inode s1)"

definition set_inode_block :: "u32 \<Rightarrow> u32 \<Rightarrow> u32 \<Rightarrow> fs_state \<Rightarrow> int \<times> fs_state" where
  "set_inode_block inode_no block_index block_no s =
     (case read_inode inode_no s of
        None \<Rightarrow> (- 1, s)
      | Some inode \<Rightarrow>
          if unat block_index < 12
          then write_inode inode_no
                 (inode\<lparr>i_block := (i_block inode)(unat block_index := block_no)\<rparr>) s
          else if unat block_index < 12 + BLOCK_SIZE div 4 then
            (if i_block inode 12 = 0
             then (case allocate_block s of
                     (ib, s1) \<Rightarrow>
                       if ib = 0 then (- 1, s1)
                       else set_indirect_entry inode_no
                              (inode\<lparr>i_block := (i_block inode)(12 := ib)\<rparr>) block_index block_no s1)
             else set_indirect_entry inode_no inode block_index block_no s)
          else (- 1, s))"

subsection \<open>Timestamps\<close>

definition update_atime :: "u32 \<Rightarrow> fs_state \<Rightarrow> fs_state" where
  "update_atime inode_no s =
     (case read_inode inode_no s of
        None \<Rightarrow> s
      | Some inode \<Rightarrow>
          (case time_now s of (t, s1) \<Rightarrow> snd (write_inode inode_no (inode\<lparr>i_atime := t\<rparr>) s1)))"

definition update_mtime :: "u32 \<Rightarrow> fs_state \<Rightarrow> fs_state" where
  "update_mtime inode_no s =
     (case read_inode inode_no s of
        None \<Rightarrow> s
      | Some inode \<Rightarrow>
          (case time_now s of (t, s1) \<Rightarrow> snd (write_inode inode_no (inode\<lparr>i_mtime := t\<rparr>) s1)))"

definition update_ctime :: "u32 \<Rightarrow> fs_state \<Rightarrow> fs_state" where
  "update_ctime inode_no s =
     (case read_inode inode_no s of
        None \<Rightarrow> s
      | Some inode \<Rightarrow>
          (case time_now s of (t, s1) \<Rightarrow> snd (write_inode inode_no (inode\<lparr>i_ctime := t\<rparr>) s1)))"

subsection \<open>Reading and writing file data\<close>

text \<open>
  The number of bytes one iteration of a transfer loop handles: what is left of the block
  from \<^verbatim>\<open>block_offset\<close>, cut to \<^verbatim>\<open>remaining\<close>.
\<close>

definition chunk :: "nat \<Rightarrow> nat \<Rightarrow> nat" where
  "chunk block_offset remaining =
     (let bytes_in_block = BLOCK_SIZE - block_offset
      in if bytes_in_block > remaining then remaining else bytes_in_block)"

text \<open>The read loop also cuts the chunk at the end of the file.\<close>

definition read_chunk :: "nat \<Rightarrow> nat \<Rightarrow> nat \<Rightarrow> nat" where
  "read_chunk isize remaining current_offset =
     (let bytes_in_block = chunk (current_offset mod BLOCK_SIZE) remaining
      in if current_offset + bytes_in_block > isize then isize - current_offset
         else bytes_in_block)"

text \<open>
  The loop of \<^verbatim>\<open>read_inode_data\<close>.  Offsets and sizes are natural numbers (the command
  layer passes \<^verbatim>\<open>file->offset\<close>, which starts at 0 and only grows); \<open>buf\<close> is what has been
  copied to the caller's buffer so far, its length is \<^verbatim>\<open>bytes_read\<close>.  The loop reads the
  state and does not change it.
\<close>

function read_loop :: "fs_state \<Rightarrow> u32 \<Rightarrow> nat \<Rightarrow> nat \<Rightarrow> nat \<Rightarrow> u8 list \<Rightarrow> u8 list" where
  "read_loop s inode_no isize remaining current_offset buf =
     (if remaining > 0 \<and> current_offset < isize then
        (case get_inode_block inode_no (of_nat (current_offset div BLOCK_SIZE)) s of
           None \<Rightarrow> buf
         | Some block_no \<Rightarrow>
             if block_no = 0 then buf
             else (case read_block block_no s of
                     None \<Rightarrow> buf
                   | Some block_buffer \<Rightarrow>
                       read_loop s inode_no isize
                         (remaining - read_chunk isize remaining current_offset)
                         (current_offset + read_chunk isize remaining current_offset)
                         (buf @ map (\<lambda>k. block_buffer (current_offset mod BLOCK_SIZE + k))
                                  [0..<read_chunk isize remaining current_offset])))
      else buf)"
  by pat_completeness auto
termination
proof (relation "measure (\<lambda>(s, inode_no, isize, remaining, current_offset, buf). remaining)")
  show "wf (measure (\<lambda>(s, inode_no, isize, remaining, current_offset, buf). remaining))"
    by simp
next
  fix s :: fs_state and inode_no :: u32 and isize remaining current_offset :: nat
    and buf :: "u8 list" and x2 :: u32 and x2a :: block
  assume live: "0 < remaining \<and> current_offset < isize"
  have "current_offset mod BLOCK_SIZE < BLOCK_SIZE"
    by (simp add: BLOCK_SIZE_def)
  with live have "0 < read_chunk isize remaining current_offset"
    by (auto simp: read_chunk_def chunk_def Let_def)
  with live show "((s, inode_no, isize, remaining - read_chunk isize remaining current_offset,
       current_offset + read_chunk isize remaining current_offset,
       buf @ map (\<lambda>k. x2a (current_offset mod BLOCK_SIZE + k))
              [0..<read_chunk isize remaining current_offset]),
      s, inode_no, isize, remaining, current_offset, buf)
     \<in> measure (\<lambda>(s, inode_no, isize, remaining, current_offset, buf). remaining)"
    by simp
qed

text \<open>
  \<^verbatim>\<open>read_inode_data\<close> (\<open>sz\<close> is its \<^verbatim>\<open>size\<close>) returns the number of bytes read (-1 when the inode cannot be read),
  the bytes copied to the caller's buffer, and the state after \<^verbatim>\<open>update_atime\<close>.
\<close>

definition read_inode_data :: "u32 \<Rightarrow> nat \<Rightarrow> nat \<Rightarrow> fs_state \<Rightarrow> int \<times> u8 list \<times> fs_state" where
  "read_inode_data inode_no sz offset s =
     (case read_inode inode_no s of
        None \<Rightarrow> (- 1, [], s)
      | Some inode \<Rightarrow>
          if offset \<ge> unat (i_size inode) then (0, [], s)
          else
            let buf = read_loop s inode_no (unat (i_size inode)) sz offset []
            in (int (length buf), buf, update_atime inode_no s))"

text \<open>
  The block a write iteration patches: the mapped one, or a newly allocated block that is
  entered into the inode; \<open>None\<close> is the \<^verbatim>\<open>break\<close> of the loop (after the new block has
  been freed again when it could not be entered).
\<close>

definition block_for_write :: "u32 \<Rightarrow> u32 \<Rightarrow> u32 \<Rightarrow> fs_state \<Rightarrow> u32 option \<times> fs_state" where
  "block_for_write inode_no block_index block_no s =
     (if block_no = 0 then
        (case allocate_block s of
           (b, s1) \<Rightarrow>
             if b = 0 then (None, s1)
             else (case set_inode_block inode_no block_index b s1 of
                     (r, s2) \<Rightarrow> if r \<noteq> 0 then (None, free_block b s2) else (Some b, s2)))
      else (Some block_no, s))"

text \<open>\<^verbatim>\<open>memcpy(block_buffer + block_offset, buffer + bytes_written, n)\<close>.\<close>

definition patch :: "block \<Rightarrow> nat \<Rightarrow> u8 list \<Rightarrow> nat \<Rightarrow> nat \<Rightarrow> block" where
  "patch block_buffer block_offset buffer bytes_written n =
     (\<lambda>k. if block_offset \<le> k \<and> k < block_offset + n
          then buffer ! (bytes_written + (k - block_offset))
          else block_buffer k)"

text \<open>
  The loop of \<^verbatim>\<open>write_inode_data\<close>; it returns \<^verbatim>\<open>bytes_written\<close>, \<^verbatim>\<open>current_offset\<close> and
  the state.
\<close>

function write_loop :: "u32 \<Rightarrow> u8 list \<Rightarrow> nat \<Rightarrow> nat \<Rightarrow> nat \<Rightarrow> fs_state \<Rightarrow> nat \<times> nat \<times> fs_state" where
  "write_loop inode_no buffer bytes_written remaining current_offset s =
     (if remaining > 0 then
        (case get_inode_block inode_no (of_nat (current_offset div BLOCK_SIZE)) s of
           None \<Rightarrow> (bytes_written, current_offset, s)
         | Some mapped \<Rightarrow>
             (case block_for_write inode_no (of_nat (current_offset div BLOCK_SIZE)) mapped s of
                (None, s1) \<Rightarrow> (bytes_written, current_offset, s1)
              | (Some block_no, s1) \<Rightarrow>
                  (case read_block block_no s1 of
                     None \<Rightarrow> (bytes_written, current_offset, s1)
                   | Some block_buffer \<Rightarrow>
                       (case write_block block_no
                               (patch block_buffer (current_offset mod BLOCK_SIZE) buffer bytes_written
                                  (chunk (current_offset mod BLOCK_SIZE) remaining)) s1 of
                          (r, s2) \<Rightarrow>
                            if r \<noteq> 0 then (bytes_written, current_offset, s2)
                            else write_loop inode_no buffer
                                   (bytes_written + chunk (current_offset mod BLOCK_SIZE) remaining)
                                   (remaining - chunk (current_offset mod BLOCK_SIZE) remaining)
                                   (current_offset + chunk (current_offset mod BLOCK_SIZE) remaining)
                                   s2))))
      else (bytes_written, current_offset, s))"
  by pat_completeness auto
termination
proof (relation "measure (\<lambda>(inode_no, buffer, bytes_written, remaining, current_offset, s). remaining)")
  show "wf (measure (\<lambda>(inode_no, buffer, bytes_written, remaining, current_offset, s). remaining))"
    by simp
next
  fix inode_no :: u32 and buffer :: "u8 list" and bytes_written remaining current_offset :: nat
    and s s2 :: fs_state
  assume live: "0 < remaining"
  have "current_offset mod BLOCK_SIZE < BLOCK_SIZE"
    by (simp add: BLOCK_SIZE_def)
  with live have "0 < chunk (current_offset mod BLOCK_SIZE) remaining"
    by (auto simp: chunk_def Let_def)
  with live show "((inode_no, buffer, bytes_written + chunk (current_offset mod BLOCK_SIZE) remaining,
       remaining - chunk (current_offset mod BLOCK_SIZE) remaining,
       current_offset + chunk (current_offset mod BLOCK_SIZE) remaining, s2),
      inode_no, buffer, bytes_written, remaining, current_offset, s)
     \<in> measure (\<lambda>(inode_no, buffer, bytes_written, remaining, current_offset, s). remaining)"
    by simp
qed

text \<open>
  \<^verbatim>\<open>write_inode_data\<close>.  After the loop the source assigns the new size and block count
  to its local copy \<open>inode\<close> of the record (the \<open>grown\<close> of the model); it then calls
  \<^verbatim>\<open>update_mtime\<close> and \<^verbatim>\<open>update_ctime\<close>, which read the record from the inode table
  again, and returns without writing the local copy.
\<close>

definition write_inode_data :: "u32 \<Rightarrow> u8 list \<Rightarrow> nat \<Rightarrow> nat \<Rightarrow> fs_state \<Rightarrow> int \<times> fs_state" where
  "write_inode_data inode_no buffer sz offset s =
     (case read_inode inode_no s of
        None \<Rightarrow> (- 1, s)
      | Some inode \<Rightarrow>
          (case write_loop inode_no buffer 0 sz offset s of
             (bytes_written, current_offset, s1) \<Rightarrow>
               let grown = (if current_offset > unat (i_size inode)
                            then inode\<lparr>i_size := of_nat current_offset,
                                   i_blocks := (of_nat current_offset + of_nat BLOCK_SIZE - 1) div of_nat BLOCK_SIZE\<rparr>
                            else inode);
                   s2 = update_mtime inode_no s1;
                   s3 = update_ctime inode_no s2
               in (int bytes_written, s3)))"

text \<open>
  \<^verbatim>\<open>truncate_inode\<close>.  \<open>len\<close> is the \<^verbatim>\<open>off_t length\<close>; the division of C truncates towards
  zero.  The record written at the end is the copy read at the start, with the new size
  and block count.
\<close>

definition truncate_step :: "u32 \<Rightarrow> u32 \<Rightarrow> fs_state \<Rightarrow> fs_state" where
  "truncate_step inode_no i s =
     (case get_inode_block inode_no i s of
        None \<Rightarrow> s
      | Some block_no \<Rightarrow>
          if block_no \<noteq> 0 then snd (set_inode_block inode_no i 0 (free_block block_no s))
          else s)"

definition truncate_inode :: "u32 \<Rightarrow> int \<Rightarrow> fs_state \<Rightarrow> int \<times> fs_state" where
  "truncate_inode inode_no len s =
     (case read_inode inode_no s of
        None \<Rightarrow> (- 1, s)
      | Some inode \<Rightarrow>
          if len \<ge> uint (i_size inode) then (0, s)
          else
            let new_blocks = (word_of_int ((len + int BLOCK_SIZE - 1) sdiv int BLOCK_SIZE) :: u32);
                old_blocks = (i_size inode + of_nat BLOCK_SIZE - 1) div of_nat BLOCK_SIZE;
                s1 = fold (truncate_step inode_no) (map of_nat [unat new_blocks..<unat old_blocks]) s;
                inode' = inode\<lparr>i_size := word_of_int len, i_blocks := new_blocks\<rparr>;
                s2 = update_mtime inode_no s1;
                s3 = update_ctime inode_no s2
            in write_inode inode_no inode' s3)"

subsection \<open>Permissions and ownership\<close>

text \<open>\<^verbatim>\<open>check_permission\<close>: the \<^verbatim>\<open>int access\<close> is compared with a three-bit nibble of the mode.\<close>

definition check_permission :: "u32 \<Rightarrow> int \<Rightarrow> fs_state \<Rightarrow> bool" where
  "check_permission inode_no access s =
     (case read_inode inode_no s of
        None \<Rightarrow> False
      | Some inode \<Rightarrow>
          let uid = get_current_uid s;
              gid = get_current_gid s;
              mode = (if uid = i_uid inode then drop_bit 6 (i_mode inode) AND 0x7
                      else if gid = i_gid inode then drop_bit 3 (i_mode inode) AND 0x7
                      else i_mode inode AND 0x7)
          in (uint mode AND access) = access)"

definition change_permission :: "u32 \<Rightarrow> u16 \<Rightarrow> fs_state \<Rightarrow> int \<times> fs_state" where
  "change_permission inode_no mode s =
     (case read_inode inode_no s of
        None \<Rightarrow> (- 1, s)
      | Some inode \<Rightarrow>
          let inode' = inode\<lparr>i_mode := (i_mode inode AND 0xF000) OR (mode AND 0x0FFF)\<rparr>;
              s1 = update_ctime inode_no s
          in write_inode inode_no inode' s1)"

definition change_owner :: "u32 \<Rightarrow> u16 \<Rightarrow> u16 \<Rightarrow> fs_state \<Rightarrow> int \<times> fs_state" where
  "change_owner inode_no uid gid s =
     (case read_inode inode_no s of
        None \<Rightarrow> (- 1, s)
      | Some inode \<Rightarrow>
          let inode' = inode\<lparr>i_uid := uid, i_gid := gid\<rparr>;
              s1 = update_ctime inode_no s
          in write_inode inode_no inode' s1)"

section \<open>Command layer (src/commands.c)\<close>

text \<open>
  What the command layer uses and the sources do not contain: the mode constants of
  \<^verbatim>\<open>ext2.h\<close>, whose values the specification does not give, and the directory layer
  (\<^verbatim>\<open>directory.c\<close>).  They are the fields of an environment that every command takes.
  A lookup returns the inode number it stores through its pointer argument, or \<open>None\<close>
  for a non-zero return value; \<^verbatim>\<open>get_parent_inode\<close> gives the parent's inode number and
  the name of the last component.  The directory functions may change the state.
\<close>

record env =
  EXT2_S_IFREG :: u16
  EXT2_S_IFDIR :: u16
  EXT2_S_IRUSR :: int
  EXT2_S_IWUSR :: int
  path_to_inode :: "string \<Rightarrow> fs_state \<Rightarrow> u32 option \<times> fs_state"
  get_parent_inode :: "string \<Rightarrow> fs_state \<Rightarrow> (u32 \<times> string) option \<times> fs_state"
  add_directory_entry :: "u32 \<Rightarrow> string \<Rightarrow> u32 \<Rightarrow> u8 \<Rightarrow> fs_state \<Rightarrow> int \<times> fs_state"
  remove_directory_entry :: "u32 \<Rightarrow> string \<Rightarrow> fs_state \<Rightarrow> int \<times> fs_state"

text \<open>The access modes of the host's \<^verbatim>\<open>fcntl.h\<close> (Linux, and POSIX systems in general).\<close>

definition O_RDONLY :: int where
  "O_RDONLY = 0"

definition O_WRONLY :: int where
  "O_WRONLY = 1"

definition O_RDWR :: int where
  "O_RDWR = 2"

definition is_directory :: "env \<Rightarrow> u32 \<Rightarrow> fs_state \<Rightarrow> bool" where
  "is_directory E inode_no s =
     (case read_inode inode_no s of
        None \<Rightarrow> False
      | Some inode \<Rightarrow> (i_mode inode AND 0xF000) = EXT2_S_IFDIR E)"

definition is_regular_file :: "env \<Rightarrow> u32 \<Rightarrow> fs_state \<Rightarrow> bool" where
  "is_regular_file E inode_no s =
     (case read_inode inode_no s of
        None \<Rightarrow> False
      | Some inode \<Rightarrow> (i_mode inode AND 0xF000) = EXT2_S_IFREG E)"


definition cmd_delete :: "env \<Rightarrow> string \<Rightarrow> fs_state \<Rightarrow> (error + int) \<times> fs_state" where
  "cmd_delete E path s =
     (if \<not> is_logged_in s then (Inl NotLoggedIn, s)
      else
        (case path_to_inode E path s of
           (None, s1) \<Rightarrow> (Inl FileNotFound, s1)
         | (Some inode_no, s1) \<Rightarrow>
             if is_directory E inode_no s1 then (Inl IsDirectory, s1)
             else if \<not> check_permission inode_no (EXT2_S_IWUSR E) s1
               then (Inl PermissionDenied, s1)
             else
               (case get_parent_inode E path s1 of
                  (None, s2) \<Rightarrow> (Inl InvalidPath, s2)
                | (Some (parent_inode, child_name), s2) \<Rightarrow>
                    (case remove_directory_entry E parent_inode child_name s2 of
                       (r, s3) \<Rightarrow>
                         if r \<noteq> 0 then (Inl RemoveEntryFailed, s3)
                         else
                           (case delete_inode inode_no s3 of
                              (d, s4) \<Rightarrow>
                                if d \<noteq> 0 then (Inl DeleteFailed, s4) else (Inr 0, s4))))))"

text \<open>The permission bits that \<^verbatim>\<open>cmd_open\<close> derives from its flags.\<close>

definition open_access :: "env \<Rightarrow> int \<Rightarrow> int" where
  "open_access E flags =
     (let a0 = 0;
          a1 = (if flags AND O_RDONLY \<noteq> 0 then a0 OR EXT2_S_IRUSR E else a0);
          a2 = (if flags AND O_WRONLY \<noteq> 0 then a1 OR EXT2_S_IWUSR E else a1);
          a3 = (if flags AND O_RDWR \<noteq> 0 then a2 OR (EXT2_S_IRUSR E OR EXT2_S_IWUSR E) else a2)
      in a3)"

text \<open>The first slot that is not open; the table has \<^verbatim>\<open>MAX_OPEN_FILES\<close> slots.\<close>

definition free_slot :: "open_file list \<Rightarrow> nat option" where
  "free_slot ofs = List.find (\<lambda>i. \<not> of_is_open (ofs ! i)) [0..<length ofs]"

text \<open>The first open slot with handle \<open>fd\<close>.\<close>

definition find_slot :: "open_file list \<Rightarrow> int \<Rightarrow> nat option" where
  "find_slot ofs fd =
     List.find (\<lambda>i. of_is_open (ofs ! i) \<and> of_fd (ofs ! i) = fd) [0..<length ofs]"

definition cmd_open :: "env \<Rightarrow> string \<Rightarrow> int \<Rightarrow> fs_state \<Rightarrow> (error + int) \<times> fs_state" where
  "cmd_open E path flags s =
     (if \<not> is_logged_in s then (Inl NotLoggedIn, s)
      else
        (case path_to_inode E path s of
           (None, s1) \<Rightarrow> (Inl FileNotFound, s1)
         | (Some inode_no, s1) \<Rightarrow>
             if \<not> is_regular_file E inode_no s1 then (Inl NotRegularFile, s1)
             else if \<not> check_permission inode_no (open_access E flags) s1
               then (Inl PermissionDenied, s1)
             else
               (case free_slot (open_files s1) of
                  None \<Rightarrow> (Inl TooManyOpenFiles, s1)
                | Some i \<Rightarrow>
                    (Inr (next_fd s1),
                     s1\<lparr>open_files := (open_files s1)[i := \<lparr>of_fd = next_fd s1,
                            of_inode_no = inode_no, of_flags = flags, of_offset = 0,
                            of_is_open = True\<rparr>],
                        next_fd := next_fd s1 + 1\<rparr>))))"

definition cmd_close :: "int \<Rightarrow> fs_state \<Rightarrow> (error + int) \<times> fs_state" where
  "cmd_close fd s =
     (if \<not> is_logged_in s then (Inl NotLoggedIn, s)
      else
        (case find_slot (open_files s) fd of
           None \<Rightarrow> (Inl BadDescriptor, s)
         | Some i \<Rightarrow>
             (Inr 0, s\<lparr>open_files := (open_files s)[i := (open_files s ! i)\<lparr>of_is_open := False\<rparr>]\<rparr>)))"

text \<open>
  \<^verbatim>\<open>cmd_read\<close> returns what \<^verbatim>\<open>read_inode_data\<close> returns, together with the bytes copied
  to the caller's buffer.
\<close>

definition cmd_read :: "int \<Rightarrow> nat \<Rightarrow> fs_state \<Rightarrow> (error + int) \<times> u8 list \<times> fs_state" where
  "cmd_read fd sz s =
     (if \<not> is_logged_in s then (Inl NotLoggedIn, [], s)
      else
        (case find_slot (open_files s) fd of
           None \<Rightarrow> (Inl BadDescriptor, [], s)
         | Some i \<Rightarrow>
             let file = open_files s ! i
             in if \<not> (of_flags file AND O_RDONLY \<noteq> 0) \<and> \<not> (of_flags file AND O_RDWR \<noteq> 0)
                then (Inl NotOpenForReading, [], s)
                else
                  (case read_inode_data (of_inode_no file) sz (of_offset file) s of
                     (bytes_read, buf, s1) \<Rightarrow>
                       (Inr bytes_read, buf,
                        if bytes_read > 0
                        then s1\<lparr>open_files := (open_files s1)[i := (open_files s1 ! i)
                                 \<lparr>of_offset := of_offset (open_files s1 ! i) + nat bytes_read\<rparr>]\<rparr>
                        else s1))))"

definition cmd_write :: "int \<Rightarrow> u8 list \<Rightarrow> nat \<Rightarrow> fs_state \<Rightarrow> (error + int) \<times> fs_state" where
  "cmd_write fd buffer sz s =
     (if \<not> is_logged_in s then (Inl NotLoggedIn, s)
      else
        (case find_slot (open_files s) fd of
           None \<Rightarrow> (Inl BadDescriptor, s)
         | Some i \<Rightarrow>
             let file = open_files s ! i
             in if \<not> (of_flags file AND O_WRONLY \<noteq> 0) \<and> \<not> (of_flags file AND O_RDWR \<noteq> 0)
                then (Inl NotOpenForWriting, s)
                else
                  (case write_inode_data (of_inode_no file) buffer sz (of_offset file) s of
                     (bytes_written, s1) \<Rightarrow>
                       (Inr bytes_written,
                        if bytes_written > 0
                        then s1\<lparr>open_files := (open_files s1)[i := (open_files s1 ! i)
                                 \<lparr>of_offset := of_offset (open_files s1 ! i) + nat bytes_written\<rparr>]\<rparr>
                        else s1))))"

text \<open>
  \<^verbatim>\<open>cmd_format\<close>: the image is created (\<^verbatim>\<open>fopen\<close> with mode \<^verbatim>\<open>"wb"\<close>) and filled with
  \<^verbatim>\<open>MAX_BLOCKS\<close> zero blocks, then reopened (\<^verbatim>\<open>"r+b"\<close>) and the superblock structure is
  written at its start.  Nothing else is written.
\<close>

definition cmd_format :: "string \<Rightarrow> fs_state \<Rightarrow> (error + int) \<times> fs_state" where
  "cmd_format disk_image s =
     (if \<not> host_writable s disk_image then (Inl CannotCreateImage, s)
      else
        (case time_now (s\<lparr>files := (files s)(disk_image := Some zero_disk)\<rparr>) of
           (t_m, s1) \<Rightarrow>
             (case time_now s1 of
                (t_w, s2) \<Rightarrow>
                  (case time_now s2 of
                     (t_l, s3) \<Rightarrow>
                       let sb = zero_superblock\<lparr>
                             s_inodes_count := of_nat MAX_INODES,
                             s_blocks_count := of_nat MAX_BLOCKS,
                             s_r_blocks_count := 10,
                             s_free_blocks_count := of_nat MAX_BLOCKS - 10,
                             s_free_inodes_count := of_nat MAX_INODES - 1,
                             s_first_data_block := 1,
                             s_log_block_size := 0,
                             s_log_frag_size := 0,
                             s_blocks_per_group := of_nat MAX_BLOCKS,
                             s_frags_per_group := of_nat MAX_BLOCKS,
                             s_inodes_per_group := of_nat MAX_INODES,
                             s_mtime := t_m,
                             s_wtime := t_w,
                             s_mnt_count := 0,
                             s_max_mnt_count := 20,
                             s_magic := 0xEF53,
                             s_state := 1,
                             s_errors := 1,
                             s_minor_rev_level := 0,
                             s_lastcheck := t_l,
                             s_checkinterval := 1800,
                             s_creator_os := 0,
                             s_rev_level := 0,
                             s_def_resuid := 0,
                             s_def_resgid := 0,
                             s_first_ino := 11,
                             s_inode_size := of_nat INODE_SIZE,
                             s_block_group_nr := 0,
                             s_feature_compat := 0,
                             s_feature_incompat := 0,
                             s_feature_ro_compat := 0\<rparr>
                       in (case files s3 disk_image of
                             None \<Rightarrow> (Inl CannotWriteSuperblock, s3)
                           | Some d \<Rightarrow>
                               if \<not> host_writable s3 disk_image
                               then (Inl CannotWriteSuperblock, s3)
                               else (Inr 0,
                                     s3\<lparr>files := (files s3)
                                          (disk_image := Some (d\<lparr>d_superblock := sb\<rparr>))\<rparr>))))))"

text \<open>Modelled from the spec: \<^verbatim>\<open>init_disk_image(path)\<close> opens an existing image read/write.\<close>

definition init_disk_image :: "string \<Rightarrow> fs_state \<Rightarrow> int \<times> fs_state" where
  "init_disk_image disk_image s =
     (if files s disk_image \<noteq> None \<and> host_writable s disk_image
      then (0, s\<lparr>disk_fp := Some disk_image\<rparr>)
      else (- 1, s))"

text \<open>Modelled from the spec: \<^verbatim>\<open>close_disk_image()\<close> releases the image handle.\<close>

definition close_disk_image :: "fs_state \<Rightarrow> fs_state" where
  "close_disk_image s = s\<lparr>disk_fp := None\<rparr>"

text \<open>
  \<^verbatim>\<open>cmd_mount\<close>: \<^verbatim>\<open>read_block(0, &fs.superblock)\<close> loads the superblock of block 0 into
  the mirror.
\<close>

definition cmd_mount :: "string \<Rightarrow> fs_state \<Rightarrow> (error + int) \<times> fs_state" where
  "cmd_mount disk_image s =
     (case init_disk_image disk_image s of
        (r, s1) \<Rightarrow>
          if r \<noteq> 0 then (Inl MountFailed, s1)
          else
            (case get_disk s1 of
               None \<Rightarrow> (Inl SuperblockUnreadable, close_disk_image s1)
             | Some d \<Rightarrow>
                 let s2 = s1\<lparr>superblock := d_superblock d\<rparr>
                 in if s_magic (superblock s2) \<noteq> 0xEF53
                    then (Inl BadMagic, close_disk_image s2)
                    else (Inr 0, s2)))"

definition cmd_chmod :: "env \<Rightarrow> string \<Rightarrow> u16 \<Rightarrow> fs_state \<Rightarrow> (error + int) \<times> fs_state" where
  "cmd_chmod E path mode s =
     (if \<not> is_logged_in s then (Inl NotLoggedIn, s)
      else
        (case path_to_inode E path s of
           (None, s1) \<Rightarrow> (Inl FileNotFound, s1)
         | (Some inode_no, s1) \<Rightarrow>
             (case change_permission inode_no mode s1 of
                (r, s2) \<Rightarrow> if r = 0 then (Inr 0, s2) else (Inl ChangeFailed, s2))))"

definition cmd_chown :: "env \<Rightarrow> string \<Rightarrow> u16 \<Rightarrow> u16 \<Rightarrow> fs_state \<Rightarrow> (error + int) \<times> fs_state" where
  "cmd_chown E path uid gid s =
     (if \<not> is_logged_in s then (Inl NotLoggedIn, s)
      else
        (case path_to_inode E path s of
           (None, s1) \<Rightarrow> (Inl FileNotFound, s1)
         | (Some inode_no, s1) \<Rightarrow>
             (case change_owner inode_no uid gid s1 of
                (r, s2) \<Rightarrow> if r = 0 then (Inr 0, s2) else (Inl ChangeFailed, s2))))"

section \<open>Vocabulary of the properties\<close>

text \<open>What the bitmaps of the mounted image say about a block and about an inode.\<close>

definition block_in_use :: "fs_state \<Rightarrow> nat \<Rightarrow> bool" where
  "block_in_use s n = (case get_disk s of None \<Rightarrow> False | Some d \<Rightarrow> d_block_bitmap d n)"

definition inode_in_use :: "fs_state \<Rightarrow> u32 \<Rightarrow> bool" where
  "inode_in_use s n = (case get_disk s of None \<Rightarrow> False | Some d \<Rightarrow> d_inode_bitmap d (unat n - 1))"




text \<open>
  The block numbers a file's inode refers to, in the order in which \<^verbatim>\<open>delete_inode\<close>
  visits them: the twelve direct pointers, then the entries of the single-indirect block
  and the indirect block itself.
\<close>

definition file_blocks :: "ext2_inode \<Rightarrow> fs_state \<Rightarrow> u32 list" where
  "file_blocks inode s =
     map (i_block inode) [0..<12] @
     (if i_block inode 12 \<noteq> 0
      then (case read_block (i_block inode 12) s of
              Some indirect_blocks \<Rightarrow> map (get_u32 indirect_blocks) [0..<BLOCK_SIZE div 4]
            | None \<Rightarrow> []) @ [i_block inode 12]
      else [])"

text \<open>The persisted size and block count of every inode of the mounted image.\<close>

definition sizes :: "fs_state \<Rightarrow> (nat \<Rightarrow> u32 \<times> u32) option" where
  "sizes s = map_option (\<lambda>d n. (i_size (d_inodes d n), i_blocks (d_inodes d n))) (get_disk s)"

text \<open>The number of clear bits of a bitmap with index in \<open>[lo, hi)\<close>.\<close>

definition count_clear :: "(nat \<Rightarrow> bool) \<Rightarrow> nat \<Rightarrow> nat \<Rightarrow> nat" where
  "count_clear bm lo hi = length (filter (\<lambda>i. \<not> bm i) [lo..<hi])"

text \<open>
  CounterConsistency: the free counters of the superblock mirror equal the numbers of
  clear bits, of the block bitmap from the first data block on and of the inode bitmap.
\<close>

definition counter_consistent :: "nat \<Rightarrow> fs_state \<Rightarrow> bool" where
  "counter_consistent first_data s =
     (case get_disk s of
        None \<Rightarrow> False
      | Some d \<Rightarrow>
          unat (s_free_blocks_count (superblock s)) = count_clear (d_block_bitmap d) first_data MAX_BLOCKS
        \<and> unat (s_free_inodes_count (superblock s)) = count_clear (d_inode_bitmap d) 0 MAX_INODES)"

section \<open>Example states\<close>

text \<open>
  A process that has just started on a host without an image: nobody is logged in, the
  open-file table (four slots here) is empty, handles start at 3, and the \<open>k\<close>-th reading
  of the clock is \<open>1000 + k\<close>.
\<close>

definition closed_slot :: open_file where
  "closed_slot = \<lparr>of_fd = 0, of_inode_no = 0, of_flags = 0, of_offset = 0, of_is_open = False\<rparr>"

definition boot :: fs_state where
  "boot = \<lparr> files = (\<lambda>_. None), host_writable = (\<lambda>_. True), disk_fp = None,
     superblock = zero_superblock,
     open_files = [closed_slot, closed_slot, closed_slot, closed_slot], next_fd = 3,
     logged_in = False, cur_uid = 0, cur_gid = 0, clock = (\<lambda>k. 1000 + of_nat k), ticks = 0 \<rparr>"

text \<open>The superblock that \<^verbatim>\<open>cmd_format\<close> writes when the clock reads 1000, 1001, 1002.\<close>

definition fmt_sb :: ext2_superblock where
  "fmt_sb = zero_superblock\<lparr>s_inodes_count := 128, s_blocks_count := 1024,
     s_r_blocks_count := 10, s_free_blocks_count := 1014, s_free_inodes_count := 127,
     s_first_data_block := 1, s_blocks_per_group := 1024, s_frags_per_group := 1024,
     s_inodes_per_group := 128, s_mtime := 1000, s_wtime := 1001, s_max_mnt_count := 20,
     s_magic := 0xEF53, s_state := 1, s_errors := 1, s_lastcheck := 1002,
     s_checkinterval := 1800, s_first_ino := 11, s_inode_size := 128\<rparr>"

definition formatted :: fs_state where
  "formatted = boot\<lparr>files := (\<lambda>_. None)(''img'' := Some (zero_disk\<lparr>d_superblock := fmt_sb\<rparr>)),
     ticks := 3\<rparr>"

text \<open>The state with image \<open>d\<close> mounted, superblock mirror \<open>sb\<close> and \<open>k\<close> clock readings made.\<close>

definition demo_state :: "disk \<Rightarrow> ext2_superblock \<Rightarrow> nat \<Rightarrow> fs_state" where
  "demo_state d sb k = boot\<lparr>files := (\<lambda>_. None)(''img'' := Some d), disk_fp := Some ''img'',
     superblock := sb, ticks := k\<rparr>"

definition mounted0 :: fs_state where
  "mounted0 = demo_state (zero_disk\<lparr>d_superblock := fmt_sb\<rparr>) fmt_sb 3"

text \<open>After \<^verbatim>\<open>create_inode(EXT2_S_IFREG | 0644, 0, 0)\<close> with the file type bits \<open>0x8000\<close>.\<close>

definition file_inode0 :: ext2_inode where
  "file_inode0 = zero_inode\<lparr>i_mode := 0x81A4, i_atime := 1003, i_ctime := 1004,
     i_mtime := 1005, i_links_count := 1\<rparr>"

definition sb1 :: ext2_superblock where
  "sb1 = fmt_sb\<lparr>s_free_inodes_count := 126\<rparr>"

definition disk1 :: disk where
  "disk1 = zero_disk\<lparr>d_superblock := sb1, d_inode_bitmap := (\<lambda>_. False)(10 := True),
     d_inodes := (\<lambda>_. zero_inode)(11 := file_inode0)\<rparr>"

definition with_file :: fs_state where
  "with_file = demo_state disk1 sb1 6"

text \<open>The five bytes of \<^verbatim>\<open>"hello"\<close>, and the state after they have been written to inode 11.\<close>

definition hello :: "u8 list" where
  "hello = [0x68, 0x65, 0x6C, 0x6C, 0x6F]"

definition sb2 :: ext2_superblock where
  "sb2 = sb1\<lparr>s_free_blocks_count := 1013\<rparr>"

definition written_inode :: ext2_inode where
  "written_inode = file_inode0\<lparr>i_mtime := 1006, i_ctime := 1007, i_block := (\<lambda>_. 0)(0 := 19)\<rparr>"

definition disk2 :: disk where
  "disk2 = disk1\<lparr>d_superblock := sb2, d_block_bitmap := (\<lambda>_. False)(19 := True),
     d_inodes := (\<lambda>_. zero_inode)(11 := written_inode),
     d_blocks := (\<lambda>_. zero_block)(19 := patch zero_block 0 hello 0 5)\<rparr>"

definition written :: fs_state where
  "written = demo_state disk2 sb2 8"

text \<open>A file of two blocks: size 2048, blocks 19 and 20.\<close>

definition big_inode :: ext2_inode where
  "big_inode = file_inode0\<lparr>i_size := 2048, i_blocks := 2, i_block := (\<lambda>_. 0)(0 := 19, 1 := 20)\<rparr>"

definition sb3 :: ext2_superblock where
  "sb3 = sb1\<lparr>s_free_blocks_count := 1012\<rparr>"

definition big_state :: fs_state where
  "big_state = demo_state (disk1\<lparr>d_superblock := sb3,
       d_block_bitmap := (\<lambda>_. False)(19 := True, 20 := True),
       d_inodes := (\<lambda>_. zero_inode)(11 := big_inode)\<rparr>) sb3 6"

text \<open>
  The same file after the loop of \<^verbatim>\<open>truncate_inode(11, 0)\<close>: both blocks are free and
  both pointers are zero in the inode table.
\<close>

definition freed_state :: fs_state where
  "freed_state = demo_state (disk1\<lparr>d_superblock := sb3\<lparr>s_free_blocks_count := 1014\<rparr>,
       d_block_bitmap := (\<lambda>_. False)(19 := False, 20 := False),
       d_inodes := (\<lambda>_. zero_inode)(11 := big_inode\<lparr>i_block := (\<lambda>_. 0)(0 := 0, 1 := 0)\<rparr>)\<rparr>)
     (sb3\<lparr>s_free_blocks_count := 1014\<rparr>) 6"

text \<open>
  An environment.  \<^verbatim>\<open>check_permission\<close> compares the required bits with a three-bit
  nibble of the mode, so a check for a non-zero access can only pass when the bits lie
  within the nibble; the environment takes the read and write bits of the nibble (4 and
  2) for \<^verbatim>\<open>EXT2_S_IRUSR\<close> and \<^verbatim>\<open>EXT2_S_IWUSR\<close>, and the type bits of ext2.  Its directory
  layer knows one file: \<^verbatim>\<open>/p\<close> is inode 11 in the directory of inode 2; adding an entry
  fails and removing one succeeds, and neither changes the state.
\<close>

definition demo_env :: env where
  "demo_env = \<lparr> EXT2_S_IFREG = 0x8000, EXT2_S_IFDIR = 0x4000, EXT2_S_IRUSR = 4, EXT2_S_IWUSR = 2,
     path_to_inode = (\<lambda>path s. (if path = ''/p'' then Some 11 else None, s)),
     get_parent_inode = (\<lambda>path s. (Some (2, ''p''), s)),
     add_directory_entry = (\<lambda>dir name ino ft s. (- 1, s)),
     remove_directory_entry = (\<lambda>dir name s. (0, s)) \<rparr>"

text \<open>
  Inode 11 after \<^verbatim>\<open>chmod 0000\<close>, owned by uid 0, with the user of uid 1000 and gid 1000
  logged in; and the same state after that user has opened \<^verbatim>\<open>/p\<close> with flags 0.
\<close>

definition locked_inode :: ext2_inode where
  "locked_inode = file_inode0\<lparr>i_mode := 0x8000\<rparr>"

definition alice_state :: fs_state where
  "alice_state = (demo_state (disk1\<lparr>d_inodes := (\<lambda>_. zero_inode)(11 := locked_inode)\<rparr>) sb1 7)
     \<lparr>logged_in := True, cur_uid := 1000, cur_gid := 1000\<rparr>"

definition alice_opened :: fs_state where
  "alice_opened = alice_state\<lparr>open_files :=
       [\<lparr>of_fd = 3, of_inode_no = 11, of_flags = 0, of_offset = 0, of_is_open = True\<rparr>,
        closed_slot, closed_slot, closed_slot],
     next_fd := 4\<rparr>"

text \<open>
  The state \<open>written\<close> with uid 0 logged in, after \<^verbatim>\<open>/p\<close> has been opened with flags 1:
  inode 11 is open under handle 3.
\<close>

definition root_opened :: fs_state where
  "root_opened = written\<lparr>open_files :=
       [\<lparr>of_fd = 3, of_inode_no = 11, of_flags = 1, of_offset = 0, of_is_open = True\<rparr>,
        closed_slot, closed_slot, closed_slot],
     next_fd := 4, logged_in := True\<rparr>"

text \<open>
  The state \<open>with_file\<close> with a directory record (type bits \<open>0x4000\<close>, mode 0755, uid 0) as
  inode 2 and uid 0 logged in.
\<close>

definition root_inode :: ext2_inode where
  "root_inode = zero_inode\<lparr>i_mode := 0x41ED, i_links_count := 2\<rparr>"

definition rooted :: fs_state where
  "rooted = (demo_state (disk1\<lparr>d_inode_bitmap := (\<lambda>_. False)(10 := True, 1 := True),
        d_inodes := (\<lambda>_. zero_inode)(11 := file_inode0, 2 := root_inode)\<rparr>) sb1 6)
     \<lparr>logged_in := True\<rparr>"


section \<open>Facts about the block device, the allocators and the inode table\<close>

declare read_loop.simps [simp del] write_loop.simps [simp del]

lemma get_disk_put_disk: "get_disk s = Some d0 \<Longrightarrow> get_disk (put_disk d s) = Some d"
  by (auto simp: get_disk_def put_disk_def split: option.splits)

lemma put_disk_fields [simp]:
  "superblock (put_disk d s) = superblock s"
  "open_files (put_disk d s) = open_files s"
  "next_fd (put_disk d s) = next_fd s"
  "logged_in (put_disk d s) = logged_in s"
  "cur_uid (put_disk d s) = cur_uid s"
  "cur_gid (put_disk d s) = cur_gid s"
  "clock (put_disk d s) = clock s"
  "ticks (put_disk d s) = ticks s"
  "disk_fp (put_disk d s) = disk_fp s"
  by (simp_all add: put_disk_def split: option.splits)

lemma get_disk_updates [simp]:
  "get_disk (s\<lparr>superblock := sb\<rparr>) = get_disk s"
  "get_disk (s\<lparr>ticks := k\<rparr>) = get_disk s"
  "get_disk (s\<lparr>open_files := ofs\<rparr>) = get_disk s"
  "get_disk (s\<lparr>next_fd := n\<rparr>) = get_disk s"
  by (simp_all add: get_disk_def split: option.splits)

lemma read_inode_Some:
  "read_inode n s = Some x \<longleftrightarrow>
   (\<exists>d. get_disk s = Some d \<and> n \<noteq> 0 \<and> unat n \<le> MAX_INODES \<and> x = d_inodes d (unat n))"
  by (auto simp: read_inode_def split: option.splits)


lemma first_clear_here: "lo < hi \<Longrightarrow> \<not> bm lo \<Longrightarrow> first_clear bm lo hi = Some lo"
  by (simp add: first_clear_def upt_conv_Cons)

lemma first_clear_skip: "lo < hi \<Longrightarrow> bm lo \<Longrightarrow> first_clear bm lo hi = first_clear bm (Suc lo) hi"
  by (simp add: first_clear_def upt_conv_Cons)

lemma zero_pointers: "fold (\<lambda>i b. b(i := 0)) xs (\<lambda>_. 0) = (\<lambda>_. 0::u32)"
  by (induction xs) (simp_all add: fun_upd_idem)

lemma const_upd: "(\<lambda>_. c)(x := c) = (\<lambda>_. c)"
  by (simp add: fun_eq_iff)

lemma count_clear_zero: "count_clear (\<lambda>_. False) lo hi = hi - lo"
  by (simp add: count_clear_def)

subsection \<open>Writing an inode record\<close>

lemma write_inode_disk:
  assumes "get_disk s = Some d"
  shows "\<exists>d'. get_disk (snd (write_inode n x s)) = Some d' \<and> d_block_bitmap d' = d_block_bitmap d
     \<and> d_inode_bitmap d' = d_inode_bitmap d \<and> d_blocks d' = d_blocks d
     \<and> d_inodes d' = (if n = 0 \<or> MAX_INODES < unat n then d_inodes d else (d_inodes d)(unat n := x))"
  using assms by (auto simp: write_inode_def get_disk_put_disk)

lemma write_inode_fields:
  "open_files (snd (write_inode n x s)) = open_files s"
  "superblock (snd (write_inode n x s)) = superblock s"
  by (auto simp: write_inode_def split: option.splits)

lemma write_inode_read_back:
  "write_inode n x s = (0, s') \<Longrightarrow> read_inode n s' = Some x"
  by (auto simp: write_inode_def read_inode_def get_disk_put_disk split: option.splits if_splits)

subsection \<open>Allocating and freeing an inode\<close>


lemma free_inode_disk:
  assumes "get_disk s = Some d"
  shows "\<exists>d'. get_disk (free_inode n s) = Some d' \<and> d_block_bitmap d' = d_block_bitmap d
     \<and> d_inodes d' = d_inodes d \<and> d_blocks d' = d_blocks d
     \<and> d_inode_bitmap d' =
         (if n \<noteq> 0 \<and> unat n \<le> MAX_INODES then (d_inode_bitmap d)(unat n - 1 := False)
          else d_inode_bitmap d)"
  using assms by (auto simp: free_inode_def Let_def get_disk_put_disk fun_eq_iff)

lemma free_inode_fields:
  "open_files (free_inode n s) = open_files s"
  "s_free_blocks_count (superblock (free_inode n s)) = s_free_blocks_count (superblock s)"
  by (auto simp: free_inode_def Let_def split: option.splits)


subsection \<open>Freeing blocks\<close>

lemma free_block_disk:
  assumes "get_disk s = Some d"
  shows "\<exists>d'. get_disk (free_block b s) = Some d' \<and> d_inodes d' = d_inodes d
     \<and> d_blocks d' = d_blocks d \<and> d_inode_bitmap d' = d_inode_bitmap d
     \<and> d_block_bitmap d' =
         (if unat b < MAX_BLOCKS then (d_block_bitmap d)(unat b := False) else d_block_bitmap d)"
  using assms by (auto simp: free_block_def Let_def get_disk_put_disk fun_eq_iff)

lemma free_block_fields:
  "open_files (free_block b s) = open_files s"
  "s_free_inodes_count (superblock (free_block b s)) = s_free_inodes_count (superblock s)"
  by (auto simp: free_block_def Let_def split: option.splits)

lemma free_blocks_Nil: "free_blocks [] s = s"
  by (simp add: free_blocks_def)

lemma free_blocks_append: "free_blocks (xs @ ys) s = free_blocks ys (free_blocks xs s)"
  by (simp add: free_blocks_def)


lemma free_blocks_disk:
  assumes "get_disk s = Some d"
  shows "\<exists>d'. get_disk (free_blocks bs s) = Some d' \<and> d_inodes d' = d_inodes d
     \<and> d_blocks d' = d_blocks d \<and> d_inode_bitmap d' = d_inode_bitmap d
     \<and> (\<forall>n. d_block_bitmap d' n \<longrightarrow> d_block_bitmap d n)
     \<and> (\<forall>b \<in> set bs. b \<noteq> 0 \<and> unat b < MAX_BLOCKS \<longrightarrow> \<not> d_block_bitmap d' (unat b))"
  using assms
proof (induction bs arbitrary: s d rule: rev_induct)
  case Nil
  then show ?case by (simp add: free_blocks_def)
next
  case (snoc b bs)
  from snoc.IH [OF snoc.prems] obtain d1 where d1: "get_disk (free_blocks bs s) = Some d1"
    "d_inodes d1 = d_inodes d" "d_blocks d1 = d_blocks d" "d_inode_bitmap d1 = d_inode_bitmap d"
    "\<forall>n. d_block_bitmap d1 n \<longrightarrow> d_block_bitmap d n"
    "\<forall>b \<in> set bs. b \<noteq> 0 \<and> unat b < MAX_BLOCKS \<longrightarrow> \<not> d_block_bitmap d1 (unat b)"
    by blast
  have step: "free_blocks (bs @ [b]) s =
      (if b \<noteq> 0 then free_block b (free_blocks bs s) else free_blocks bs s)"
    by (simp add: free_blocks_def)
  show ?case
  proof (cases "b = 0")
    case True
    with step d1 show ?thesis by auto
  next
    case False
    from free_block_disk [OF d1(1), of b] obtain d2 where
      "get_disk (free_block b (free_blocks bs s)) = Some d2"
      "d_inodes d2 = d_inodes d1" "d_blocks d2 = d_blocks d1" "d_inode_bitmap d2 = d_inode_bitmap d1"
      "d_block_bitmap d2 =
         (if unat b < MAX_BLOCKS then (d_block_bitmap d1)(unat b := False) else d_block_bitmap d1)"
      by blast
    with False step d1 show ?thesis by auto
  qed
qed

lemma free_blocks_fields:
  "open_files (free_blocks bs s) = open_files s"
  "s_free_inodes_count (superblock (free_blocks bs s)) = s_free_inodes_count (superblock s)"
  unfolding free_blocks_def by (induction bs arbitrary: s) (simp_all add: free_block_fields)

lemma read_block_free_blocks:
  "get_disk s = Some d \<Longrightarrow> read_block n (free_blocks bs s) = read_block n s"
  using free_blocks_disk [of s d bs] by (auto simp: read_block_def)

section \<open>Facts about the inode layer\<close>


lemma delete_inode_eq:
  assumes "read_inode ino s = Some x"
  shows "delete_inode ino s =
    (0, free_inode ino (snd (write_inode ino zero_inode (free_blocks (file_blocks x s) s))))"
proof -
  from assms obtain d where d: "get_disk s = Some d"
    by (auto simp: read_inode_Some)
  have rb: "read_block n (free_blocks bs s) = read_block n s" for n bs
    using d by (rule read_block_free_blocks)
  have one: "free_block b t = free_blocks [b] t" if "b \<noteq> 0" for b t
    using that by (simp add: free_blocks_def)
  show ?thesis
    using assms
    by (auto simp: delete_inode_def Let_def file_blocks_def free_blocks_append rb one
        free_blocks_Nil split: option.splits)
qed

lemma delete_inode_effect:
  assumes "read_inode ino s = Some x"
  shows "fst (delete_inode ino s) = 0"
    and "open_files (snd (delete_inode ino s)) = open_files s"
    and "read_inode ino (snd (delete_inode ino s)) = Some zero_inode"
    and "\<not> inode_in_use (snd (delete_inode ino s)) ino"
    and "\<forall>b \<in> set (file_blocks x s). b \<noteq> 0 \<and> unat b < MAX_BLOCKS \<longrightarrow>
           \<not> block_in_use (snd (delete_inode ino s)) (unat b)"
proof -
  from assms obtain d where d: "get_disk s = Some d" and ino: "ino \<noteq> 0" "unat ino \<le> MAX_INODES"
    by (auto simp: read_inode_Some)
  let ?s1 = "free_blocks (file_blocks x s) s"
  let ?s2 = "snd (write_inode ino zero_inode ?s1)"
  let ?s3 = "free_inode ino ?s2"
  have eq: "delete_inode ino s = (0, ?s3)"
    using assms by (rule delete_inode_eq)
  from free_blocks_disk [OF d, of "file_blocks x s"] obtain d1 where d1:
    "get_disk ?s1 = Some d1"
    "\<forall>b \<in> set (file_blocks x s). b \<noteq> 0 \<and> unat b < MAX_BLOCKS \<longrightarrow> \<not> d_block_bitmap d1 (unat b)"
    by blast
  from write_inode_disk [OF d1(1), of ino zero_inode] ino obtain d2 where d2:
    "get_disk ?s2 = Some d2" "d_block_bitmap d2 = d_block_bitmap d1"
    "d_inodes d2 = (d_inodes d1)(unat ino := zero_inode)"
    by auto
  from free_inode_disk [OF d2(1), of ino] ino obtain d3 where d3:
    "get_disk ?s3 = Some d3" "d_block_bitmap d3 = d_block_bitmap d2" "d_inodes d3 = d_inodes d2"
    "d_inode_bitmap d3 = (d_inode_bitmap d2)(unat ino - 1 := False)"
    by auto
  show "fst (delete_inode ino s) = 0"
    by (simp add: eq)
  show "open_files (snd (delete_inode ino s)) = open_files s"
    by (simp add: eq free_inode_fields write_inode_fields free_blocks_fields)
  show "read_inode ino (snd (delete_inode ino s)) = Some zero_inode"
    using d3 d2 ino by (simp add: eq read_inode_def)
  show "\<not> inode_in_use (snd (delete_inode ino s)) ino"
    using d3 by (simp add: eq inode_in_use_def)
  show "\<forall>b \<in> set (file_blocks x s). b \<noteq> 0 \<and> unat b < MAX_BLOCKS \<longrightarrow>
           \<not> block_in_use (snd (delete_inode ino s)) (unat b)"
    using d3 d2 d1 by (simp add: eq block_in_use_def)
qed

lemma change_permission_ok:
  assumes "read_inode n s = Some x"
  shows "fst (change_permission n mode s) = 0"
    and "read_inode n (snd (change_permission n mode s)) =
      Some (x\<lparr>i_mode := (i_mode x AND 0xF000) OR (mode AND 0x0FFF)\<rparr>)"
  using assms
  by (auto simp: change_permission_def update_ctime_def write_inode_def read_inode_def time_now_def
      get_disk_put_disk Let_def split: option.splits)

lemma change_owner_ok:
  assumes "read_inode n s = Some x"
  shows "fst (change_owner n uid gid s) = 0"
    and "read_inode n (snd (change_owner n uid gid s)) = Some (x\<lparr>i_uid := uid, i_gid := gid\<rparr>)"
  using assms
  by (auto simp: change_owner_def update_ctime_def write_inode_def read_inode_def time_now_def
      get_disk_put_disk Let_def split: option.splits)

subsection \<open>No step of a write changes a persisted size\<close>

lemma sizes_put_disk:
  "get_disk s = Some d \<Longrightarrow> d_inodes d' = d_inodes d \<Longrightarrow> sizes (put_disk d' s) = sizes s"
  by (simp add: sizes_def get_disk_put_disk)

lemma sizes_updates [simp]:
  "sizes (s\<lparr>superblock := sb\<rparr>) = sizes s"
  "sizes (s\<lparr>ticks := k\<rparr>) = sizes s"
  by (simp_all add: sizes_def)

lemma sizes_write_block: "sizes (snd (write_block n b s)) = sizes s"
  by (auto simp: write_block_def sizes_def get_disk_put_disk split: option.splits)

lemma sizes_allocate_block: "sizes (snd (allocate_block s)) = sizes s"
  by (auto simp: allocate_block_def sizes_def get_disk_put_disk Let_def split: option.splits)

lemma sizes_free_block: "sizes (free_block b s) = sizes s"
  by (auto simp: free_block_def sizes_def get_disk_put_disk Let_def split: option.splits)

lemma read_inode_write_block: "read_inode n (snd (write_block m b s)) = read_inode n s"
  by (auto simp: write_block_def read_inode_def get_disk_put_disk split: option.splits)

lemma read_inode_allocate_block: "read_inode n (snd (allocate_block s)) = read_inode n s"
  by (auto simp: allocate_block_def read_inode_def get_disk_put_disk Let_def split: option.splits)

lemma read_inode_time: "read_inode n (s\<lparr>ticks := k\<rparr>) = read_inode n s"
  by (simp add: read_inode_def)

lemma sizes_write_inode:
  assumes "read_inode n s = Some x" and "i_size y = i_size x" and "i_blocks y = i_blocks x"
  shows "sizes (snd (write_inode n y s)) = sizes s"
  using assms
  by (auto simp: write_inode_def read_inode_def sizes_def get_disk_put_disk fun_eq_iff
      split: option.splits if_splits)

lemma sizes_update_mtime: "sizes (update_mtime n s) = sizes s"
  by (auto simp: update_mtime_def time_now_def read_inode_time
      intro!: sizes_write_inode [THEN trans] split: option.splits)

lemma sizes_update_ctime: "sizes (update_ctime n s) = sizes s"
  by (auto simp: update_ctime_def time_now_def read_inode_time
      intro!: sizes_write_inode [THEN trans] split: option.splits)

lemma sizes_set_indirect_entry:
  assumes "read_inode n s = Some x" and "i_size y = i_size x" and "i_blocks y = i_blocks x"
  shows "sizes (snd (set_indirect_entry n y idx b s)) = sizes s"
proof -
  let ?s1 = "snd (write_block (i_block y 12)
      (set_u32 (case read_block (i_block y 12) s of Some b \<Rightarrow> b | None \<Rightarrow> zero_block)
         (unat idx - 12) b) s)"
  have "read_inode n ?s1 = Some x"
    using assms(1) by (simp add: read_inode_write_block)
  then have "sizes (snd (write_inode n y ?s1)) = sizes ?s1"
    using assms(2,3) by (rule sizes_write_inode)
  then show ?thesis
    by (simp add: set_indirect_entry_def Let_def sizes_write_block)
qed

lemma sizes_set_inode_block: "sizes (snd (set_inode_block n idx b s)) = sizes s"
proof (cases "read_inode n s")
  case None
  then show ?thesis by (simp add: set_inode_block_def)
next
  case (Some x)
  have direct: "sizes (snd (write_inode n (x\<lparr>i_block := (i_block x)(unat idx := b)\<rparr>) s)) = sizes s"
    using Some by (rule sizes_write_inode) simp_all
  have ind: "sizes (snd (set_indirect_entry n x idx b s)) = sizes s"
    using Some by (rule sizes_set_indirect_entry) simp_all
  have alloc: "sizes (snd (set_indirect_entry n (x\<lparr>i_block := (i_block x)(12 := ib)\<rparr>) idx b
      (snd (allocate_block s)))) = sizes s" for ib
  proof -
    have "read_inode n (snd (allocate_block s)) = Some x"
      using Some by (simp add: read_inode_allocate_block)
    then have "sizes (snd (set_indirect_entry n (x\<lparr>i_block := (i_block x)(12 := ib)\<rparr>) idx b
      (snd (allocate_block s)))) = sizes (snd (allocate_block s))"
      by (rule sizes_set_indirect_entry) simp_all
    then show ?thesis by (simp add: sizes_allocate_block)
  qed
  show ?thesis
    using Some direct ind alloc sizes_allocate_block [of s]
    by (auto simp: set_inode_block_def split: prod.splits)
qed

lemma sizes_block_for_write: "sizes (snd (block_for_write n idx b s)) = sizes s"
  using sizes_allocate_block [of s]
  by (auto simp: block_for_write_def sizes_free_block split: prod.splits)
    (metis sizes_set_inode_block snd_conv)+

lemma sizes_write_loop:
  "sizes (snd (snd (write_loop n buf bw rem off s))) = sizes s"
proof (induction n buf bw rem off s rule: write_loop.induct)
  case (1 inode_no buffer bytes_written remaining current_offset s)
  show ?case
  proof (cases "0 < remaining")
    case False
    then show ?thesis by (simp add: write_loop.simps)
  next
    case True
    show ?thesis
    proof (cases "get_inode_block inode_no (of_nat (current_offset div BLOCK_SIZE)) s")
      case None
      with True show ?thesis by (simp add: write_loop.simps)
    next
      case (Some mapped)
      obtain ob s1 where bfw: "block_for_write inode_no (of_nat (current_offset div BLOCK_SIZE)) mapped s = (ob, s1)"
        by (cases "block_for_write inode_no (of_nat (current_offset div BLOCK_SIZE)) mapped s")
      have s1: "sizes s1 = sizes s"
        using sizes_block_for_write [of inode_no "of_nat (current_offset div BLOCK_SIZE)" mapped s] bfw
        by simp
      show ?thesis
      proof (cases ob)
        case None
        with True Some bfw s1 show ?thesis by (simp add: write_loop.simps)
      next
        case ob: (Some block_no)
        show ?thesis
        proof (cases "read_block block_no s1")
          case None
          with True Some bfw s1 ob show ?thesis by (simp add: write_loop.simps)
        next
          case rb: (Some block_buffer)
          obtain r s2 where wb: "write_block block_no
               (patch block_buffer (current_offset mod BLOCK_SIZE) buffer bytes_written
                  (chunk (current_offset mod BLOCK_SIZE) remaining)) s1 = (r, s2)"
            by (cases "write_block block_no
               (patch block_buffer (current_offset mod BLOCK_SIZE) buffer bytes_written
                  (chunk (current_offset mod BLOCK_SIZE) remaining)) s1")
          have "sizes (snd (write_block block_no
               (patch block_buffer (current_offset mod BLOCK_SIZE) buffer bytes_written
                  (chunk (current_offset mod BLOCK_SIZE) remaining)) s1)) = sizes s1"
            by (rule sizes_write_block)
          then have s2: "sizes s2 = sizes s"
            by (simp add: wb s1)
          show ?thesis
          proof (cases "r = 0")
            case False
            with True Some bfw ob rb wb s2 show ?thesis by (simp add: write_loop.simps)
          next
            case r0: True
            have "sizes (snd (snd (write_loop inode_no buffer
                     (bytes_written + chunk (current_offset mod BLOCK_SIZE) remaining)
                     (remaining - chunk (current_offset mod BLOCK_SIZE) remaining)
                     (current_offset + chunk (current_offset mod BLOCK_SIZE) remaining) s2))) = sizes s2"
              using "1.IH" [OF True Some bfw [symmetric] ob rb wb [symmetric]] r0 by simp
            with True Some bfw ob rb wb r0 s2 show ?thesis
              by (simp add: write_loop.simps [of inode_no buffer bytes_written remaining current_offset s])
          qed
        qed
      qed
    qed
  qed
qed

section \<open>The example states are reached by the code\<close>

lemmas disk_defs = get_disk_def put_disk_def read_block_def write_block_def read_inode_def
  write_inode_def allocate_block_def free_block_def allocate_inode_def free_inode_def
  time_now_def MAX_BLOCKS_def MAX_INODES_def BLOCK_SIZE_def INODE_SIZE_def FIRST_DATA_BLOCK_def
  FIRST_INO_def

lemmas inode_defs = get_inode_block_def set_inode_block_def set_indirect_entry_def
  update_atime_def update_mtime_def update_ctime_def chunk_def read_chunk_def
  block_for_write_def

lemmas fixture_defs = boot_def demo_state_def disk1_def sb1_def file_inode0_def zero_disk_def
  zero_inode_def closed_slot_def

lemmas session_defs = is_logged_in_def get_current_uid_def get_current_gid_def
  O_RDONLY_def O_WRONLY_def O_RDWR_def

lemma fmt_sb_fields:
  "s_free_inodes_count fmt_sb = 127" "s_free_blocks_count fmt_sb = 1014" "s_magic fmt_sb = 0xEF53"
  by (simp_all add: fmt_sb_def zero_superblock_def)

lemma format_boot: "cmd_format ''img'' boot = (Inr 0, formatted)"
  by (simp add: cmd_format_def boot_def formatted_def fmt_sb_def time_now_def Let_def
      zero_superblock_def MAX_INODES_def MAX_BLOCKS_def INODE_SIZE_def)

lemma mount_formatted: "cmd_mount ''img'' formatted = (Inr 0, mounted0)"
  by (simp add: cmd_mount_def init_disk_image_def formatted_def mounted0_def demo_state_def boot_def
      get_disk_def Let_def fmt_sb_fields)

lemma get_disk_demo_state: "get_disk (demo_state d sb k) = Some d"
  by (simp add: get_disk_def demo_state_def)

lemma create_file: "create_inode (0x8000 OR 0x1A4) 0 0 mounted0 = (11, with_file)"
  by (simp add: create_inode_def disk_defs fixture_defs mounted0_def with_file_def first_clear_here
      zero_pointers fmt_sb_fields Let_def)

lemma write_hello: "write_inode_data 11 hello 5 0 with_file = (5, written)"
  by (simp add: write_inode_data_def write_loop.simps disk_defs inode_defs fixture_defs with_file_def
      first_clear_here fmt_sb_fields written_def disk2_def sb2_def written_inode_def Let_def)

lemma chmod_0000:
  "change_permission 11 0 with_file = (0, alice_state\<lparr>logged_in := False, cur_uid := 0, cur_gid := 0\<rparr>)"
  by (simp add: change_permission_def disk_defs inode_defs fixture_defs with_file_def alice_state_def
      locked_inode_def Let_def)

lemma big_state_reached:
  "(case allocate_block with_file of
      (b1, s1) \<Rightarrow> (case allocate_block s1 of (b2, s2) \<Rightarrow> (b1, b2, write_inode 11 big_inode s2)))
   = (19, 20, 0, big_state)"
  by (simp add: disk_defs fixture_defs with_file_def first_clear_here first_clear_skip fmt_sb_fields
      big_state_def sb3_def const_upd Let_def)

lemma truncate_big_loop: "fold (truncate_step 11) [0, 1] big_state = freed_state"
proof -
  have m1: "truncate_step 11 0 big_state =
      demo_state (disk1\<lparr>d_superblock := sb3\<lparr>s_free_blocks_count := 1013\<rparr>,
        d_block_bitmap := (\<lambda>_. False)(20 := True, 19 := False),
        d_inodes := (\<lambda>_. zero_inode)(11 := big_inode\<lparr>i_block := (\<lambda>_. 0)(1 := 20, 0 := 0)\<rparr>)\<rparr>)
       (sb3\<lparr>s_free_blocks_count := 1013\<rparr>) 6"
    by (simp add: truncate_step_def disk_defs inode_defs fixture_defs big_state_def
        big_inode_def sb3_def Let_def)
  show ?thesis
    unfolding fold_simps m1 o_apply id_apply freed_state_def
    by (simp add: truncate_step_def disk_defs inode_defs fixture_defs big_inode_def sb3_def Let_def)
qed

lemma truncate_big_run:
  "truncate_inode 11 0 big_state =
     write_inode 11 (big_inode\<lparr>i_size := 0, i_blocks := 0\<rparr>)
       (update_ctime 11 (update_mtime 11 freed_state))"
proof -
  have two: "[0..<2] = [0, Suc 0]"
    by (simp add: numeral_2_eq_2)
  have "truncate_inode 11 0 big_state =
     write_inode 11 (big_inode\<lparr>i_size := 0, i_blocks := 0\<rparr>)
       (update_ctime 11 (update_mtime 11 (fold (truncate_step 11) [0, 1] big_state)))"
    by (simp add: truncate_inode_def read_inode_def get_disk_demo_state big_state_def MAX_INODES_def
        BLOCK_SIZE_def big_inode_def signed_divide_int_def two Let_def)
  then show ?thesis
    by (simp only: truncate_big_loop)
qed

lemma truncate_big_returns: "fst (truncate_inode 11 0 big_state) = 0"
  unfolding truncate_big_run
  by (simp add: disk_defs inode_defs fixture_defs freed_state_def big_inode_def sb3_def Let_def)


lemma root_may_write: "check_permission 2 (EXT2_S_IWUSR demo_env) rooted"
  by (simp add: check_permission_def read_inode_def rooted_def get_disk_def demo_state_def
      boot_def MAX_INODES_def demo_env_def root_inode_def zero_inode_def session_defs Let_def)

lemma root_opens: "cmd_open demo_env ''/p'' 1 (written\<lparr>logged_in := True\<rparr>) = (Inr 3, root_opened)"
  by (simp add: cmd_open_def is_regular_file_def check_permission_def open_access_def
      free_slot_def session_defs demo_env_def written_def root_opened_def disk2_def written_inode_def
      disk_defs fixture_defs Let_def)

lemma alice_opens: "cmd_open demo_env ''/p'' 0 alice_state = (Inr 3, alice_opened)"
  by (simp add: cmd_open_def is_regular_file_def check_permission_def open_access_def
      free_slot_def session_defs demo_env_def alice_state_def alice_opened_def locked_inode_def
      disk_defs fixture_defs Let_def)

section \<open>The claims\<close>

text \<open>
  C1 (write-then-read round trip).  The claim: when \<^verbatim>\<open>write_inode_data(f, W, |W|, O)\<close>
  reports \<open>|W|\<close> bytes written, an immediately following
  \<^verbatim>\<open>read_inode_data(f, buf, |W|, O)\<close> returns exactly \<open>W\<close>.  The code at the new file of
  inode 11 (the state \<open>with_file\<close>, reached by format, mount and \<^verbatim>\<open>create_inode\<close>): writing
  the five bytes of \<open>hello\<close> at offset 0 reports 5, and the read that follows returns 0
  bytes, because the size of the file in the inode table is still 0.
\<close>

theorem write_then_read_returns_nothing:
  "fst (write_inode_data 11 hello (length hello) 0 with_file) = int (length hello)
   \<and> fst (read_inode_data 11 (length hello) 0
            (snd (write_inode_data 11 hello (length hello) 0 with_file))) = 0
   \<and> fst (snd (read_inode_data 11 (length hello) 0
            (snd (write_inode_data 11 hello (length hello) 0 with_file)))) = []
   \<and> hello \<noteq> []"
proof -
  have len: "length hello = 5"
    by (simp add: hello_def)
  have rd: "read_inode_data 11 5 0 written = (0, [], written)"
    by (simp add: read_inode_data_def disk_defs fixture_defs written_def disk2_def written_inode_def)
  show ?thesis
    by (simp add: len write_hello rd) (simp add: hello_def)
qed

text \<open>
  C2 (size after a write).  The claim: after \<^verbatim>\<open>write_inode_data\<close> returns \<open>n > 0\<close>, the
  persisted inode has size \<open>max(s, offset + n)\<close> and blocks \<open>ceil(size / B)\<close>, and its mtime
  and ctime are updated.  The code at the same input: 5 bytes are written at offset 0 of
  a file of size 0, block 19 is mapped and both times are updated, but the persisted size
  and block count are still 0: the new size is assigned to the local copy of the record
  only.
\<close>

theorem write_leaves_size_unchanged:
  "fst (write_inode_data 11 hello 5 0 with_file) = 5
   \<and> map_option i_size (read_inode 11 with_file) = Some 0
   \<and> map_option i_size (read_inode 11 (snd (write_inode_data 11 hello 5 0 with_file))) = Some 0
   \<and> map_option i_blocks (read_inode 11 (snd (write_inode_data 11 hello 5 0 with_file))) = Some 0
   \<and> map_option (\<lambda>x. i_block x 0) (read_inode 11 (snd (write_inode_data 11 hello 5 0 with_file))) = Some 19
   \<and> map_option i_mtime (read_inode 11 (snd (write_inode_data 11 hello 5 0 with_file))) = Some 1006
   \<and> map_option i_ctime (read_inode 11 (snd (write_inode_data 11 hello 5 0 with_file))) = Some 1007"
  by (simp add: write_hello)
    (simp add: read_inode_def get_disk_demo_state written_def with_file_def disk2_def disk1_def
      written_inode_def file_inode0_def zero_inode_def MAX_INODES_def)

text \<open>
  C3 (format).  The claim: after \<^verbatim>\<open>cmd_format\<close> the bitmaps have the metadata blocks marked
  used and inode 2 is the root directory (mode directory | 0755) with a data block
  holding \<^verbatim>\<open>.\<close> and \<^verbatim>\<open>..\<close>.  The code on a fresh host: the command succeeds, and in the
  image both bitmaps are clear everywhere, inode 2 is a zeroed record, whose mode differs
  from \<open>dir OR 0755\<close> (\<open>0x1ED\<close>) for every value \<open>dir\<close> of the directory type bits, and every
  block is zero.
\<close>

theorem format_writes_only_superblock:
  "fst (cmd_format ''img'' boot) = Inr 0
   \<and> (case files (snd (cmd_format ''img'' boot)) ''img'' of
         None \<Rightarrow> False
       | Some d \<Rightarrow> d_block_bitmap d = (\<lambda>_. False) \<and> d_inode_bitmap d = (\<lambda>_. False)
            \<and> d_inodes d 2 = zero_inode
            \<and> (\<forall>dir. i_mode (d_inodes d 2) \<noteq> (dir OR 0x1ED))
            \<and> d_blocks d = (\<lambda>_. zero_block))"
proof -
  have "(dir OR 0x1ED) \<noteq> (0 :: u16)" for dir
    by (simp add: or_eq_0_iff)
  then show ?thesis
    by (simp add: format_boot formatted_def zero_disk_def zero_inode_def)
qed

text \<open>
  C4 (CounterConsistency).  The claim: after every successful sequence of commands,
  format followed by mount included, the free counters equal the numbers of clear bits of
  the bitmaps.  The code on a fresh host: format and mount succeed, the superblock mirror
  then counts 127 free inodes and 1014 free blocks, while the inode bitmap has 128 clear
  bits and the block bitmap 1005 from the first data block on; the invariant fails
  whichever block is taken as the first data block.
\<close>

theorem format_mount_counters:
  "fst (cmd_format ''img'' boot) = Inr 0
   \<and> fst (cmd_mount ''img'' (snd (cmd_format ''img'' boot))) = Inr 0
   \<and> s_free_inodes_count (superblock (snd (cmd_mount ''img'' (snd (cmd_format ''img'' boot))))) = 127
   \<and> s_free_blocks_count (superblock (snd (cmd_mount ''img'' (snd (cmd_format ''img'' boot))))) = 1014
   \<and> map_option (\<lambda>d. count_clear (d_inode_bitmap d) 0 MAX_INODES)
        (get_disk (snd (cmd_mount ''img'' (snd (cmd_format ''img'' boot))))) = Some 128
   \<and> map_option (\<lambda>d. count_clear (d_block_bitmap d) FIRST_DATA_BLOCK MAX_BLOCKS)
        (get_disk (snd (cmd_mount ''img'' (snd (cmd_format ''img'' boot))))) = Some 1005
   \<and> (\<forall>first_data. \<not> counter_consistent first_data
         (snd (cmd_mount ''img'' (snd (cmd_format ''img'' boot)))))"
proof -
  have sb: "superblock mounted0 = fmt_sb"
    by (simp add: mounted0_def demo_state_def)
  have gd: "get_disk mounted0 = Some (zero_disk\<lparr>d_superblock := fmt_sb\<rparr>)"
    by (simp add: mounted0_def get_disk_demo_state)
  show ?thesis
    by (simp add: format_boot mount_formatted counter_consistent_def gd zero_disk_def
        count_clear_zero MAX_INODES_def MAX_BLOCKS_def FIRST_DATA_BLOCK_def INODE_SIZE_def
        BLOCK_SIZE_def sb fmt_sb_fields)
qed

text \<open>
  C5 (open for read checks the read permission).  The claim: opening with flags 0 a
  regular file whose permission bits deny read to the current user fails with
  PermissionDenied.  The code: inode 11 has mode 0000 and is owned by uid 0, the user of
  uid 1000 has no read permission on it (\<^verbatim>\<open>check_permission\<close> with the read bit is false),
  and \<^verbatim>\<open>cmd_open\<close> with flags 0 succeeds with handle 3: the flags are tested with
  \<^verbatim>\<open>flags & O_RDONLY\<close>, which is 0 for every \<open>flags\<close>, so no permission bit is required.
\<close>

theorem open_for_read_skips_permission:
  "check_permission 11 (EXT2_S_IRUSR demo_env) alice_state = False
   \<and> open_access demo_env 0 = 0
   \<and> cmd_open demo_env ''/p'' 0 alice_state = (Inr 3, alice_opened)"
proof -
  have "check_permission 11 (EXT2_S_IRUSR demo_env) alice_state = False"
    by (simp add: check_permission_def session_defs demo_env_def alice_state_def locked_inode_def
        disk_defs fixture_defs Let_def)
  moreover have "open_access demo_env 0 = 0"
    by (simp add: open_access_def session_defs Let_def)
  ultimately show ?thesis
    by (simp add: alice_opens)
qed

text \<open>
  C6 (reading through a handle opened for read).  The claim: \<^verbatim>\<open>cmd_read\<close> on a descriptor
  obtained by \<^verbatim>\<open>cmd_open\<close> with flags 0 is not rejected for its direction.  The code:
  the handle 3 that \<^verbatim>\<open>cmd_open\<close> with flags 0 returned is rejected by \<^verbatim>\<open>cmd_read\<close> with
  "File not opened for reading", and the state is unchanged.
\<close>

theorem read_rejects_handle_opened_for_read:
  "fst (cmd_open demo_env ''/p'' 0 alice_state) = Inr 3
   \<and> cmd_read 3 5 (snd (cmd_open demo_env ''/p'' 0 alice_state))
       = (Inl NotOpenForReading, [], snd (cmd_open demo_env ''/p'' 0 alice_state))"
proof -
  have rd: "cmd_read 3 5 alice_opened = (Inl NotOpenForReading, [], alice_opened)"
    by (simp add: cmd_read_def find_slot_def session_defs alice_opened_def alice_state_def
        demo_state_def boot_def closed_slot_def Let_def)
  show ?thesis
    by (simp add: alice_opens rd)
qed

text \<open>
  C7 (truncate).  The claim: a shrinking \<^verbatim>\<open>truncate_inode\<close> frees the blocks beyond the
  new length, clears their pointer slots in the persisted inode, sets size and blocks,
  and updates mtime and ctime.  The code on a file of two blocks (19 and 20, size 2048)
  truncated to length 0: both blocks are freed and size and blocks become 0, but the
  persisted record still points to blocks 19 and 20 and has its old mtime and ctime,
  although the clock was read twice: the record written last is the copy read at the
  start of the function.
\<close>

theorem truncate_writes_stale_copy:
  "fst (truncate_inode 11 0 big_state) = 0
   \<and> map_option i_size (read_inode 11 (snd (truncate_inode 11 0 big_state))) = Some 0
   \<and> map_option i_blocks (read_inode 11 (snd (truncate_inode 11 0 big_state))) = Some 0
   \<and> map_option (\<lambda>x. i_block x 0) (read_inode 11 (snd (truncate_inode 11 0 big_state))) = Some 19
   \<and> map_option (\<lambda>x. i_block x 1) (read_inode 11 (snd (truncate_inode 11 0 big_state))) = Some 20
   \<and> \<not> block_in_use (snd (truncate_inode 11 0 big_state)) 19
   \<and> \<not> block_in_use (snd (truncate_inode 11 0 big_state)) 20
   \<and> map_option i_mtime (read_inode 11 (snd (truncate_inode 11 0 big_state)))
       = map_option i_mtime (read_inode 11 big_state)
   \<and> map_option i_ctime (read_inode 11 (snd (truncate_inode 11 0 big_state)))
       = map_option i_ctime (read_inode 11 big_state)
   \<and> ticks (snd (truncate_inode 11 0 big_state)) = ticks big_state + 2"
  unfolding truncate_big_run
  by (simp add: disk_defs inode_defs fixture_defs freed_state_def big_state_def big_inode_def
      sb3_def block_in_use_def Let_def)




text \<open>
  C9 (delete with open descriptors).  When \<^verbatim>\<open>cmd_delete\<close> has passed its checks and the
  directory layer has removed the entry, the command succeeds although slot \<open>k\<close> of the
  open-file table is open on the file: the table is left as it is, so the slot stays open
  with the inode number of the deleted file; the inode record is zeroed, its bitmap bit
  is clear, and every block the inode referred to (directly or through its indirect
  block) is free.
\<close>

theorem delete_with_open_handles:
  assumes "is_logged_in s"
    and "path_to_inode E path s = (Some ino, s1)"
    and "\<not> is_directory E ino s1"
    and "check_permission ino (EXT2_S_IWUSR E) s1"
    and "get_parent_inode E path s1 = (Some (parent, name), s2)"
    and "remove_directory_entry E parent name s2 = (0, s3)"
    and "read_inode ino s3 = Some inode"
    and "k < length (open_files s3)"
    and "of_is_open (open_files s3 ! k)"
    and "of_inode_no (open_files s3 ! k) = ino"
  shows "fst (cmd_delete E path s) = Inr 0
    \<and> open_files (snd (cmd_delete E path s)) = open_files s3
    \<and> of_is_open (open_files (snd (cmd_delete E path s)) ! k)
    \<and> of_inode_no (open_files (snd (cmd_delete E path s)) ! k) = ino
    \<and> read_inode ino (snd (cmd_delete E path s)) = Some zero_inode
    \<and> \<not> inode_in_use (snd (cmd_delete E path s)) ino
    \<and> (\<forall>b \<in> set (file_blocks inode s3). b \<noteq> 0 \<and> unat b < MAX_BLOCKS \<longrightarrow>
           \<not> block_in_use (snd (cmd_delete E path s)) (unat b))"
proof -
  have run: "cmd_delete E path s =
      (if fst (delete_inode ino s3) \<noteq> 0 then Inl DeleteFailed else Inr 0, snd (delete_inode ino s3))"
    using assms(1-6) by (simp add: cmd_delete_def split: prod.splits)
  note eff = delete_inode_effect [OF assms(7)]
  show ?thesis
    using eff assms(8-10) by (simp add: run)
qed

text \<open>
  The witness: uid 0 deletes \<^verbatim>\<open>/p\<close> (inode 11, data block 19) while handle 3 is open on
  it; afterwards the handle is still open on inode 11, whose record is zero and whose
  bitmap bit and block 19 are free.
\<close>

theorem delete_with_open_handles_witness:
  "is_logged_in root_opened
   \<and> of_is_open (open_files root_opened ! 0) \<and> of_inode_no (open_files root_opened ! 0) = 11
   \<and> inode_in_use root_opened 11 \<and> block_in_use root_opened 19
   \<and> fst (cmd_delete demo_env ''/p'' root_opened) = Inr 0
   \<and> of_is_open (open_files (snd (cmd_delete demo_env ''/p'' root_opened)) ! 0)
   \<and> of_inode_no (open_files (snd (cmd_delete demo_env ''/p'' root_opened)) ! 0) = 11
   \<and> read_inode 11 (snd (cmd_delete demo_env ''/p'' root_opened)) = Some zero_inode
   \<and> \<not> inode_in_use (snd (cmd_delete demo_env ''/p'' root_opened)) 11
   \<and> \<not> block_in_use (snd (cmd_delete demo_env ''/p'' root_opened)) 19"
proof -
  have gd: "get_disk root_opened = Some disk2"
    by (simp add: root_opened_def written_def get_disk_def demo_state_def)
  have h1: "is_logged_in root_opened"
    by (simp add: is_logged_in_def root_opened_def)
  have h2: "path_to_inode demo_env ''/p'' root_opened = (Some 11, root_opened)"
    by (simp add: demo_env_def)
  have h7: "read_inode 11 root_opened = Some written_inode"
    by (simp add: read_inode_def gd disk2_def MAX_INODES_def)
  have h3: "\<not> is_directory demo_env 11 root_opened"
    by (simp add: is_directory_def h7 written_inode_def file_inode0_def zero_inode_def demo_env_def)
  have who: "get_current_uid root_opened = 0" "get_current_gid root_opened = 0"
    by (simp_all add: session_defs root_opened_def written_def demo_state_def boot_def)
  have h4: "check_permission 11 (EXT2_S_IWUSR demo_env) root_opened"
    by (simp add: check_permission_def h7 who written_inode_def file_inode0_def zero_inode_def
        demo_env_def Let_def)
  have h5: "get_parent_inode demo_env ''/p'' root_opened = (Some (2, ''p''), root_opened)"
    by (simp add: demo_env_def)
  have h6: "remove_directory_entry demo_env 2 ''p'' root_opened = (0, root_opened)"
    by (simp add: demo_env_def)
  have h8: "0 < length (open_files root_opened)"
    by (simp add: root_opened_def)
  have h9: "of_is_open (open_files root_opened ! 0)"
    by (simp add: root_opened_def)
  have h10: "of_inode_no (open_files root_opened ! 0) = 11"
    by (simp add: root_opened_def)
  have used: "inode_in_use root_opened 11" "block_in_use root_opened 19"
    by (simp_all add: inode_in_use_def block_in_use_def gd disk2_def disk1_def)
  have blk: "(19 :: u32) \<in> set (file_blocks written_inode root_opened)"
    by (simp add: file_blocks_def written_inode_def upt_conv_Cons)
  note main = delete_with_open_handles [OF h1 h2 h3 h4 h5 h6 h7 h8 h9 h10]
  from main blk have "\<not> block_in_use (snd (cmd_delete demo_env ''/p'' root_opened)) (unat (19 :: u32))"
    by (auto simp: MAX_BLOCKS_def)
  then have "\<not> block_in_use (snd (cmd_delete demo_env ''/p'' root_opened)) 19"
    by simp
  with main h1 h9 h10 used show ?thesis
    by simp
qed

text \<open>
  C10 (chmod and chown make no ownership check).  For a logged-in user and a path that
  resolves to a readable inode, \<^verbatim>\<open>cmd_chmod\<close> and \<^verbatim>\<open>cmd_chown\<close> succeed and store the new
  mode bits, respectively the new owner and group, whoever the current user is and
  whatever owner and mode the inode has: the statement has no hypothesis on them.
\<close>

theorem chmod_chown_unchecked:
  assumes "is_logged_in s"
    and "path_to_inode E path s = (Some inode_no, s1)"
    and "read_inode inode_no s1 = Some inode"
  shows "fst (cmd_chmod E path mode s) = Inr 0
     \<and> read_inode inode_no (snd (cmd_chmod E path mode s)) =
         Some (inode\<lparr>i_mode := (i_mode inode AND 0xF000) OR (mode AND 0x0FFF)\<rparr>)
     \<and> fst (cmd_chown E path uid gid s) = Inr 0
     \<and> read_inode inode_no (snd (cmd_chown E path uid gid s)) =
         Some (inode\<lparr>i_uid := uid, i_gid := gid\<rparr>)"
  using assms change_permission_ok [OF assms(3), of mode] change_owner_ok [OF assms(3), of uid gid]
  by (auto simp: cmd_chmod_def cmd_chown_def split: prod.splits)

text \<open>
  The witness: the user of uid 1000, who neither owns inode 11 (uid 0, mode 0000) nor
  has any permission on it, sets its mode to 0777 and makes themself its owner.
\<close>

theorem chmod_chown_unchecked_witness:
  "is_logged_in alice_state
   \<and> cur_uid alice_state \<noteq> i_uid locked_inode
   \<and> \<not> check_permission 11 (EXT2_S_IRUSR demo_env) alice_state
   \<and> \<not> check_permission 11 (EXT2_S_IWUSR demo_env) alice_state
   \<and> fst (cmd_chmod demo_env ''/p'' 0x1FF alice_state) = Inr 0
   \<and> map_option i_mode (read_inode 11 (snd (cmd_chmod demo_env ''/p'' 0x1FF alice_state))) = Some 0x81FF
   \<and> fst (cmd_chown demo_env ''/p'' 1000 1000 alice_state) = Inr 0
   \<and> map_option i_uid (read_inode 11 (snd (cmd_chown demo_env ''/p'' 1000 1000 alice_state))) = Some 1000"
proof -
  have h1: "is_logged_in alice_state"
    by (simp add: is_logged_in_def alice_state_def)
  have h2: "path_to_inode demo_env ''/p'' alice_state = (Some 11, alice_state)"
    by (simp add: demo_env_def)
  have h3: "read_inode 11 alice_state = Some locked_inode"
    by (simp add: read_inode_def alice_state_def get_disk_def demo_state_def MAX_INODES_def)
  have own: "cur_uid alice_state \<noteq> i_uid locked_inode"
    by (simp add: alice_state_def locked_inode_def file_inode0_def zero_inode_def)
  have who: "get_current_uid alice_state = 1000" "get_current_gid alice_state = 1000"
    by (simp_all add: session_defs alice_state_def)
  have perm: "\<not> check_permission 11 access alice_state" if "access \<noteq> 0" for access
    using that
    by (auto simp: check_permission_def h3 who locked_inode_def file_inode0_def zero_inode_def
        Let_def)
  note main = chmod_chown_unchecked [OF h1 h2 h3, of "0x1FF" 1000 1000]
  have m: "(i_mode locked_inode AND 0xF000) OR (0x1FF AND 0x0FFF) = 0x81FF"
    by (simp add: locked_inode_def)
  have p: "\<not> check_permission 11 (EXT2_S_IRUSR demo_env) alice_state"
    "\<not> check_permission 11 (EXT2_S_IWUSR demo_env) alice_state"
    by (simp_all add: perm demo_env_def)
  from main h1 own p m show ?thesis
    by simp
qed

section \<open>Further properties of the code\<close>

text \<open>
  \<^verbatim>\<open>write_inode_data\<close> never changes the persisted size or block count of any inode,
  whatever it writes and wherever: no step of its loop and neither of the two timestamp
  updates writes a record with another size, and the grown copy is not written.
\<close>

theorem write_inode_data_keeps_sizes:
  "sizes (snd (write_inode_data inode_no buffer sz offset s)) = sizes s"
  using sizes_write_loop [of inode_no buffer 0 sz offset s]
  by (auto simp: write_inode_data_def Let_def sizes_update_mtime sizes_update_ctime
      split: option.splits prod.splits)

text \<open>
  \<^verbatim>\<open>cmd_open\<close> with flags 0 never fails with "Permission denied", in any state and for any
  values of the mode constants.
\<close>

theorem open_flags0_never_denied:
  "fst (cmd_open E path 0 s) \<noteq> Inl PermissionDenied"
  by (auto simp: cmd_open_def open_access_def O_RDONLY_def O_WRONLY_def O_RDWR_def
      is_regular_file_def check_permission_def Let_def split: prod.splits option.splits)

text \<open>
  \<^verbatim>\<open>cmd_read\<close> rejects every open handle whose flags are 0 and leaves the state as it is.
\<close>

theorem read_flags0_always_rejected:
  assumes "is_logged_in s" and "find_slot (open_files s) fd = Some i"
    and "of_flags (open_files s ! i) = 0"
  shows "cmd_read fd sz s = (Inl NotOpenForReading, [], s)"
  using assms by (simp add: cmd_read_def O_RDONLY_def O_RDWR_def Let_def)

theorem read_flags0_always_rejected_witness:
  "is_logged_in alice_opened \<and> find_slot (open_files alice_opened) 3 = Some 0
   \<and> of_flags (open_files alice_opened ! 0) = 0
   \<and> cmd_read 3 5 alice_opened = (Inl NotOpenForReading, [], alice_opened)"
proof -
  have h1: "is_logged_in alice_opened"
    by (simp add: is_logged_in_def alice_opened_def alice_state_def)
  have h2: "find_slot (open_files alice_opened) 3 = Some 0"
    by (simp add: find_slot_def alice_opened_def closed_slot_def)
  have h3: "of_flags (open_files alice_opened ! 0) = 0"
    by (simp add: alice_opened_def)
  from read_flags0_always_rejected [OF h1 h2 h3, of 5] h1 h2 h3 show ?thesis
    by simp
qed

text \<open>
  A shrinking \<^verbatim>\<open>truncate_inode\<close> that returns 0 leaves in the inode table the record it
  read at its start with the new size and block count: block pointers, mtime and ctime
  are those from before the call.
\<close>

theorem truncate_persists_stale_record:
  assumes "read_inode inode_no s = Some inode" and "len < uint (i_size inode)"
    and "fst (truncate_inode inode_no len s) = 0"
  shows "read_inode inode_no (snd (truncate_inode inode_no len s)) =
    Some (inode\<lparr>i_size := word_of_int len,
            i_blocks := word_of_int ((len + int BLOCK_SIZE - 1) sdiv int BLOCK_SIZE)\<rparr>)"
proof -
  obtain s' where w: "truncate_inode inode_no len s = (0, s')"
    using assms(3) by (cases "truncate_inode inode_no len s") simp
  then show ?thesis
    using assms(1,2)
    by (auto simp: truncate_inode_def Let_def dest!: write_inode_read_back)
qed

theorem truncate_persists_stale_record_witness:
  "read_inode 11 big_state = Some big_inode \<and> (0 :: int) < uint (i_size big_inode)
   \<and> fst (truncate_inode 11 0 big_state) = 0
   \<and> read_inode 11 (snd (truncate_inode 11 0 big_state)) =
       Some (big_inode\<lparr>i_size := 0, i_blocks := 0\<rparr>)"
proof -
  have h1: "read_inode 11 big_state = Some big_inode"
    by (simp add: read_inode_def get_disk_demo_state big_state_def MAX_INODES_def)
  have h2: "(0 :: int) < uint (i_size big_inode)"
    by (simp add: big_inode_def)
  have z: "word_of_int ((0 + int BLOCK_SIZE - 1) sdiv int BLOCK_SIZE) = (0 :: u32)"
    by (simp add: BLOCK_SIZE_def signed_divide_int_def)
  from truncate_persists_stale_record [OF h1 h2 truncate_big_returns] h1 h2 truncate_big_returns z
  show ?thesis
    by simp
qed

text \<open>
  \<^verbatim>\<open>check_permission\<close> can only succeed for an access value between 0 and 7: the required
  bits are compared with a three-bit nibble of the mode.
\<close>

theorem check_permission_nibble:
  assumes "check_permission inode_no access s"
  shows "0 \<le> access \<and> access \<le> 7"
proof -
  have bound: "0 \<le> uint (w AND 7) AND access \<and> uint (w AND 7) AND access \<le> 7" for w :: u16
  proof -
    have "uint (w AND 7) \<le> 7"
      using word_and_le1 [of w 7] by (simp add: word_le_def)
    moreover have "0 \<le> uint (w AND 7)"
      by simp
    ultimately show ?thesis
      by (metis AND_upper1 and_nonnegative_int_iff order_trans)
  qed
  from assms obtain w :: u16 where "uint (w AND 7) AND access = access"
    by (auto simp: check_permission_def Let_def split: option.splits if_splits)
  with bound [of w] show ?thesis
    by simp
qed

theorem check_permission_nibble_witness:
  "check_permission 2 2 rooted \<and> (0 :: int) \<le> 2 \<and> (2 :: int) \<le> 7"
proof -
  have h: "check_permission 2 2 rooted"
    using root_may_write by (simp add: demo_env_def)
  from check_permission_nibble [OF h] h show ?thesis
    by simp
qed

end
